theory Spec2Isabelle
  imports Complex_Main "HOL-Library.Sublist" "HOL-Library.Log_Nat"
begin

section \<open>Python values and exceptions\<close>

text \<open>
  The monitor of \<^verbatim>\<open>system_monitor.py\<close> is embedded with explicit state and an explicit
  trace of effects.  Every \<^verbatim>\<open>raise\<close> of the source is a value \<open>Inl e\<close>.  Only
  subclasses of \<^verbatim>\<open>Exception\<close> are modelled (the \<^verbatim>\<open>except Exception\<close> clauses of
  the source catch exactly those).  \<open>LibraryError\<close> stands for any exception raised by
  psutil, the file system, the YAML parser or smtplib, with its message.
\<close>

datatype py_exception =
    KeyError string
  | TypeError string
  | AttributeError string
  | LibraryError string

text \<open>\<^verbatim>\<open>str(e)\<close>: a \<^verbatim>\<open>KeyError\<close> prints the repr of the missing key.\<close>

fun exc_str :: "py_exception \<Rightarrow> string" where
  "exc_str (KeyError k) = CHR 0x27 # k @ [CHR 0x27]"
| "exc_str (TypeError m) = m"
| "exc_str (AttributeError m) = m"
| "exc_str (LibraryError m) = m"

text \<open>
  A document as \<^verbatim>\<open>yaml.safe_load\<close> returns it.  A mapping is kept as its list of items
  (looked up by \<open>map_of\<close>); only string keys are kept, the only ones the source asks for.
  Floats are finite here: \<^verbatim>\<open>.inf\<close> and \<^verbatim>\<open>.nan\<close> are left out.
\<close>

datatype yaml =
    YNull
  | YBool bool
  | YInt int
  | YFloat real
  | YStr string
  | YSeq "yaml list"
  | YMap "(string \<times> yaml) list"

text \<open>Sequencing of steps that may raise: the first exception ends the sequence.\<close>

definition and_then :: "py_exception + 'a \<Rightarrow> ('a \<Rightarrow> py_exception + 'b) \<Rightarrow> py_exception + 'b" where
  "and_then r f = (case r of Inl e \<Rightarrow> Inl e | Inr v \<Rightarrow> f v)"

text \<open>\<^verbatim>\<open>d[k]\<close> on a loaded document: \<^verbatim>\<open>KeyError\<close> on a dict without the key,
  \<^verbatim>\<open>TypeError\<close> on anything that is not a dict (\<^verbatim>\<open>None\<close>, numbers, strings and lists
  are not subscriptable by a string).\<close>

definition getitem :: "yaml \<Rightarrow> string \<Rightarrow> py_exception + yaml" where
  "getitem d k =
     (case d of
        YMap items \<Rightarrow> (case map_of items k of Some v \<Rightarrow> Inr v | None \<Rightarrow> Inl (KeyError k))
      | _ \<Rightarrow> Inl (TypeError ''object is not subscriptable by str''))"

text \<open>\<^verbatim>\<open>d.get(k, default)\<close>: only a dict has the method.\<close>

definition dict_get :: "yaml \<Rightarrow> string \<Rightarrow> yaml \<Rightarrow> py_exception + yaml" where
  "dict_get d k dflt =
     (case d of
        YMap items \<Rightarrow> Inr (case map_of items k of Some v \<Rightarrow> v | None \<Rightarrow> dflt)
      | _ \<Rightarrow> Inl (AttributeError ''object has no attribute get''))"

text \<open>The number a loaded value denotes in a comparison with a float
  (\<^verbatim>\<open>bool\<close> is a subclass of \<^verbatim>\<open>int\<close>); other values are not ordered against floats.\<close>

fun num_of :: "yaml \<Rightarrow> real option" where
  "num_of (YInt i) = Some (of_int i)"
| "num_of (YFloat x) = Some x"
| "num_of (YBool b) = Some (if b then 1 else 0)"
| "num_of _ = None"

text \<open>\<^verbatim>\<open>x > y\<close> for a float \<open>x\<close> and a loaded value \<open>y\<close>.\<close>

definition py_gt :: "real \<Rightarrow> yaml \<Rightarrow> py_exception + bool" where
  "py_gt x y =
     (case num_of y of
        Some r \<Rightarrow> Inr (x > r)
      | None \<Rightarrow> Inl (TypeError ''> not supported between float and this type''))"

text \<open>\<^verbatim>\<open>a_dict[k]\<close> on a Python dict held as a map.\<close>

definition lookup :: "(string \<rightharpoonup> 'v) \<Rightarrow> string \<Rightarrow> py_exception + 'v" where
  "lookup m k = (case m k of Some v \<Rightarrow> Inr v | None \<Rightarrow> Inl (KeyError k))"

section \<open>Time\<close>

text \<open>
  Python's \<^verbatim>\<open>a / b\<close> on two integers is the quotient rounded to the nearest binary64 float,
  ties to even.  For a positive quotient \<open>x\<close> with \<open>2\<^sup>q \<le> x < 2\<^sup>q\<^sup>+\<^sup>1\<close> the floats around it
  are the multiples of \<open>2\<^sup>q\<^sup>-\<^sup>5\<^sup>2\<close>, so the result is \<open>x / 2\<^sup>q\<^sup>-\<^sup>5\<^sup>2\<close> rounded to an integer,
  times \<open>2\<^sup>q\<^sup>-\<^sup>5\<^sup>2\<close>; a negative quotient rounds as its absolute value.  The divisor is
  positive in every use.  The exponent range of binary64 is not modelled: the quotients
  formed here (differences of datetimes, in microseconds, over \<open>10\<^sup>6\<close>) are below
  \<open>2\<^sup>3\<^sup>9\<close> in absolute value and, unless zero, at least \<open>10\<^sup>-\<^sup>6\<close>.
\<close>

definition pow2 :: "int \<Rightarrow> real" where
  "pow2 e = (if 0 \<le> e then 2 ^ nat e else 1 / 2 ^ nat (- e))"

definition round_half_even :: "real \<Rightarrow> int" where
  "round_half_even y =
     (let f = \<lfloor>y\<rfloor>; r = y - of_int f in
      if r < 1 / 2 then f else if 1 / 2 < r then f + 1 else if even f then f else f + 1)"

text \<open>The \<open>q\<close> with \<open>2\<^sup>q \<le> a / b < 2\<^sup>q\<^sup>+\<^sup>1\<close>, for positive \<open>a\<close> and \<open>b\<close>, from their bit lengths.\<close>

definition quot_exponent :: "int \<Rightarrow> int \<Rightarrow> int" where
  "quot_exponent a b =
     (let k = bitlen a - bitlen b in
      if of_int a / of_int b < pow2 k then k - 1 else k)"

definition true_div :: "int \<Rightarrow> int \<Rightarrow> real" where
  "true_div a b =
     (if a = 0 then 0
      else let e = quot_exponent \<bar>a\<bar> b - 52;
               m = round_half_even (of_int \<bar>a\<bar> / of_int b / pow2 e)
           in of_int (sgn a * m) * pow2 e)"

text \<open>
  A naive \<^verbatim>\<open>datetime\<close> is the number of microseconds since \<^verbatim>\<open>datetime.min\<close>
  (0001-01-01 00:00:00); the difference of two of them is a \<^verbatim>\<open>timedelta\<close>, held in
  microseconds.  \<^verbatim>\<open>total_seconds()\<close> is the float that dividing that count by \<open>10\<^sup>6\<close>
  gives.
\<close>

type_synonym datetime = int
type_synonym timedelta = int

definition datetime_min :: datetime where
  "datetime_min = 0"

definition total_seconds :: "timedelta \<Rightarrow> real" where
  "total_seconds td = true_div td 1000000"

text \<open>1970-01-01 00:00:00 is 719162 days after \<^verbatim>\<open>datetime.min\<close>.\<close>

definition unix_epoch :: datetime where
  "unix_epoch = 719162 * 86400 * 1000000"

section \<open>Formatting done by the Python library\<close>

text \<open>
  The source formats through \<^verbatim>\<open>strftime\<close>, the format specification \<^verbatim>\<open>.1f\<close> and
  \<^verbatim>\<open>str\<close>.  They belong to the Python library, not to the program, and are parameters
  of the model.
\<close>

record pylib =
  strftime :: "datetime \<Rightarrow> string"
  fmt_1f :: "real \<Rightarrow> string"
  py_str :: "yaml \<Rightarrow> string"

text \<open>Right-justification to a width, the \<^verbatim>\<open>>5\<close> of \<^verbatim>\<open>{x:>5.1f}\<close>.\<close>

definition rjust :: "nat \<Rightarrow> string \<Rightarrow> string" where
  "rjust w s = replicate (w - length s) CHR '' '' @ s"

definition nl :: char where
  "nl = CHR 0x0A"

section \<open>Data of the program\<close>

record ResourceUsage =
  cpu_percent :: real
  memory_percent :: real
  disk_percent :: real
  timestamp :: datetime

record SystemMonitor =
  config :: yaml
  thresholds :: yaml
  email_config :: yaml
  interval :: yaml
  alert_cooldown :: yaml
  last_alert_time :: "string \<rightharpoonup> datetime"

text \<open>The effects of the program, in the order they happen.  \<open>SendAlert subject message\<close>
  marks a call of \<^verbatim>\<open>send_alert\<close>: a notification attempt.\<close>

datatype level = INFO | WARNING | ERROR

datatype event =
    ConsolePrint string
  | Log level string
  | SendAlert string string

text \<open>
  What the outside world answers during one call of \<^verbatim>\<open>check_resources\<close>: the three
  psutil queries, the two readings of the clock (\<^verbatim>\<open>datetime.now()\<close> in
  \<^verbatim>\<open>get_resource_usage\<close> and again in \<^verbatim>\<open>check_resources\<close>), and the SMTP server
  (connection with STARTTLS for a server and port; login and submission for a sender,
  password, subject and message).
\<close>

record tick_env =
  cpu_query :: "py_exception + real"
  memory_query :: "py_exception + real"
  disk_query :: "py_exception + real"
  now_sample :: datetime
  now_check :: datetime
  smtp_connect :: "yaml \<Rightarrow> yaml \<Rightarrow> py_exception + unit"
  smtp_deliver :: "yaml \<Rightarrow> yaml \<Rightarrow> string \<Rightarrow> string \<Rightarrow> py_exception + unit"

section \<open>Configuration\<close>

definition default_config :: yaml where
  "default_config =
     YMap [(''thresholds'', YMap [(''cpu'', YInt 80), (''memory'', YInt 80), (''disk'', YInt 80)]),
           (''email'', YMap [(''smtp_server'', YStr ''smtp.gmail.com''),
                             (''smtp_port'', YInt 587),
                             (''sender'', YStr ''your-email@gmail.com''),
                             (''password'', YStr ''your-app-password''),
                             (''recipient'', YStr ''admin@example.com'')])]"

text \<open>\<^verbatim>\<open>_load_config\<close>: \<open>open_file\<close> is \<^verbatim>\<open>open(config_path, 'r')\<close> with the reading of the
  file, \<open>safe_load\<close> is \<^verbatim>\<open>yaml.safe_load\<close>.  Any exception of either is logged with
  \<^verbatim>\<open>logging.error\<close> and the built-in document is returned.\<close>

definition load_config ::
  "(string \<Rightarrow> py_exception + string) \<Rightarrow> (string \<Rightarrow> py_exception + yaml) \<Rightarrow> string \<Rightarrow> yaml \<times> event list" where
  "load_config open_file safe_load config_path =
     (case and_then (open_file config_path) safe_load of
        Inr doc \<Rightarrow> (doc, [])
      | Inl e \<Rightarrow> (default_config, [Log ERROR (''Failed to load config: '' @ exc_str e)]))"

text \<open>\<^verbatim>\<open>SystemMonitor.__init__\<close>, up to the construction of the console and of the logging
  handlers, which do not touch the fields.\<close>

definition init ::
  "(string \<Rightarrow> py_exception + string) \<Rightarrow> (string \<Rightarrow> py_exception + yaml) \<Rightarrow> string
     \<Rightarrow> (py_exception + SystemMonitor) \<times> event list" where
  "init open_file safe_load config_path =
     (case load_config open_file safe_load config_path of
        (cfg, evs) \<Rightarrow>
          (and_then (getitem cfg ''thresholds'') (\<lambda>th.
           and_then (getitem cfg ''email'') (\<lambda>em.
           and_then (dict_get cfg ''interval'' (YInt 300)) (\<lambda>iv.
           and_then (dict_get cfg ''alert_cooldown'' (YInt 3600)) (\<lambda>cd.
           Inr \<lparr>config = cfg, thresholds = th, email_config = em, interval = iv,
                alert_cooldown = cd,
                last_alert_time = [''cpu'' \<mapsto> datetime_min, ''memory'' \<mapsto> datetime_min,
                                   ''disk'' \<mapsto> datetime_min]\<rparr>)))),
           evs))"

section \<open>The report\<close>

text \<open>One metric line of the f-string of \<^verbatim>\<open>format_usage_report\<close>, its fields evaluated
  from left to right: the value, \<^verbatim>\<open>self.thresholds[key]\<close> printed, and the status from
  \<^verbatim>\<open>value > self.thresholds[key]\<close>.\<close>

definition metric_line ::
  "pylib \<Rightarrow> SystemMonitor \<Rightarrow> string \<Rightarrow> real \<Rightarrow> string \<Rightarrow> py_exception + string" where
  "metric_line L self label v key =
     and_then (getitem (thresholds self) key) (\<lambda>shown.
     and_then (getitem (thresholds self) key) (\<lambda>limit.
     and_then (py_gt v limit) (\<lambda>over.
     Inr (label @ rjust 5 (fmt_1f L v) @ ''% (Threshold: '' @ py_str L shown @ ''%) - ''
            @ (if over then ''[red]ALERT[/red]'' else ''[green]OK[/green]'')))))"

definition format_usage_report ::
  "pylib \<Rightarrow> SystemMonitor \<Rightarrow> ResourceUsage \<Rightarrow> py_exception + string" where
  "format_usage_report L self usage =
     and_then (metric_line L self ''CPU Usage    : '' (cpu_percent usage) ''cpu'') (\<lambda>cpu_line.
     and_then (metric_line L self ''Memory Usage : '' (memory_percent usage) ''memory'') (\<lambda>memory_line.
     and_then (metric_line L self ''Disk Usage   : '' (disk_percent usage) ''disk'') (\<lambda>disk_line.
     Inr (nl # ''System Resource Usage Report - '' @ strftime L (timestamp usage) @ nl #
          replicate 60 CHR ''=''  @ nl #
          cpu_line @ nl #
          memory_line @ nl #
          disk_line @ nl #
          replicate 60 CHR ''=''))))"

section \<open>Sampling, alerting, one tick\<close>

definition get_resource_usage :: "tick_env \<Rightarrow> (py_exception + ResourceUsage) \<times> event list" where
  "get_resource_usage env =
     (case and_then (cpu_query env) (\<lambda>c.
           and_then (memory_query env) (\<lambda>m.
           and_then (disk_query env) (\<lambda>d.
           Inr \<lparr>cpu_percent = c, memory_percent = m, disk_percent = d,
                timestamp = now_sample env\<rparr>))) of
        Inl e \<Rightarrow> (Inl e, [Log ERROR (''Failed to get resource usage: '' @ exc_str e)])
      | Inr usage \<Rightarrow> (Inr usage, []))"

text \<open>\<^verbatim>\<open>send_alert\<close>: the whole body is inside \<^verbatim>\<open>try\<close>, and the handler only logs, so the
  call returns in every case and the monitor's fields are not written.\<close>

definition send_alert :: "tick_env \<Rightarrow> SystemMonitor \<Rightarrow> string \<Rightarrow> string \<Rightarrow> event list" where
  "send_alert env self subject message =
     SendAlert subject message #
     (case and_then (getitem (email_config self) ''sender'') (\<lambda>from_addr.
           and_then (getitem (email_config self) ''recipient'') (\<lambda>to_addr.
           and_then (getitem (email_config self) ''smtp_server'') (\<lambda>server.
           and_then (getitem (email_config self) ''smtp_port'') (\<lambda>port.
           and_then (smtp_connect env server port) (\<lambda>_.
           and_then (getitem (email_config self) ''sender'') (\<lambda>user.
           and_then (getitem (email_config self) ''password'') (\<lambda>password.
           smtp_deliver env user password subject message))))))) of
        Inr _ \<Rightarrow> [Log INFO (''Alert sent: '' @ subject)]
      | Inl e \<Rightarrow> [Log ERROR (''Failed to send alert: '' @ exc_str e)])"

text \<open>One of the three threshold blocks of \<^verbatim>\<open>check_resources\<close>; they differ in the key,
  the sampled value, the subject and the wording of the message.  An exception leaves
  the block before it has written anything.\<close>

definition alert_block ::
  "pylib \<Rightarrow> tick_env \<Rightarrow> datetime \<Rightarrow> string \<Rightarrow> real \<Rightarrow> string \<Rightarrow> string \<Rightarrow> SystemMonitor
     \<Rightarrow> py_exception + SystemMonitor \<times> event list" where
  "alert_block L env current_time key v subject wording self =
     and_then (getitem (thresholds self) key) (\<lambda>limit.
     and_then (py_gt v limit) (\<lambda>over.
     if over then
       and_then (lookup (last_alert_time self) key) (\<lambda>last.
       and_then (py_gt (total_seconds (current_time - last)) (alert_cooldown self)) (\<lambda>due.
       if due then
         Inr (self\<lparr>last_alert_time := (last_alert_time self)(key \<mapsto> current_time)\<rparr>,
              send_alert env self subject (wording @ fmt_1f L v @ ''%''))
       else Inr (self, [])))
     else Inr (self, [])))"

text \<open>The body of the \<^verbatim>\<open>try\<close> of \<^verbatim>\<open>check_resources\<close>: the exception that left it, if any,
  with the monitor and the trace as they were at that point.  Printing to the console
  is taken to succeed.\<close>

definition check_resources_try ::
  "pylib \<Rightarrow> tick_env \<Rightarrow> SystemMonitor \<Rightarrow> py_exception option \<times> SystemMonitor \<times> event list" where
  "check_resources_try L env self =
     (case get_resource_usage env of
        (Inl e, ev0) \<Rightarrow> (Some e, self, ev0)
      | (Inr usage, ev0) \<Rightarrow>
     (case format_usage_report L self usage of
        Inl e \<Rightarrow> (Some e, self, ev0)
      | Inr report \<Rightarrow>
     (let ev1 = ev0 @ [ConsolePrint report];
          current_time = now_check env in
     (case alert_block L env current_time ''cpu'' (cpu_percent usage)
             ''High CPU Usage Alert'' ''CPU usage is '' self of
        Inl e \<Rightarrow> (Some e, self, ev1)
      | Inr (s1, a1) \<Rightarrow>
     (case alert_block L env current_time ''memory'' (memory_percent usage)
             ''High Memory Usage Alert'' ''Memory usage is '' s1 of
        Inl e \<Rightarrow> (Some e, s1, ev1 @ a1)
      | Inr (s2, a2) \<Rightarrow>
     (case alert_block L env current_time ''disk'' (disk_percent usage)
             ''High Disk Usage Alert'' ''Disk usage is '' s2 of
        Inl e \<Rightarrow> (Some e, s2, ev1 @ a1 @ a2)
      | Inr (s3, a3) \<Rightarrow> (None, s3, ev1 @ a1 @ a2 @ a3)))))))"

text \<open>\<^verbatim>\<open>check_resources\<close>: the handler logs the exception and the call returns
  \<^verbatim>\<open>None\<close>.  The first component is what the caller sees: \<open>Inr ()\<close> for a normal
  return, \<open>Inl e\<close> for an exception that leaves the call.\<close>

definition check_resources ::
  "pylib \<Rightarrow> tick_env \<Rightarrow> SystemMonitor \<Rightarrow> (py_exception + unit) \<times> SystemMonitor \<times> event list" where
  "check_resources L env self =
     (case check_resources_try L env self of
        (Some e, s, evs) \<Rightarrow> (Inr (), s, evs @ [Log ERROR (''Error in check_resources: '' @ exc_str e)])
      | (None, s, evs) \<Rightarrow> (Inr (), s, evs))"

section \<open>Vocabulary of the statements\<close>

text \<open>
  The three metrics, with the dictionary key, the field of the sample, the subject and
  the wording of the message that the source uses for each.  An alert for a metric was
  attempted in a trace when \<^verbatim>\<open>send_alert\<close> was called with that metric's subject.
  \<open>threshold_value\<close> and \<open>cooldown_value\<close> read the configured numbers, when the
  configuration holds numbers there.
\<close>

datatype metric = Cpu | Memory | Disk

fun key :: "metric \<Rightarrow> string" where
  "key Cpu = ''cpu''"
| "key Memory = ''memory''"
| "key Disk = ''disk''"

fun reading :: "metric \<Rightarrow> ResourceUsage \<Rightarrow> real" where
  "reading Cpu u = cpu_percent u"
| "reading Memory u = memory_percent u"
| "reading Disk u = disk_percent u"

fun subject :: "metric \<Rightarrow> string" where
  "subject Cpu = ''High CPU Usage Alert''"
| "subject Memory = ''High Memory Usage Alert''"
| "subject Disk = ''High Disk Usage Alert''"

fun is_alert_for :: "metric \<Rightarrow> event \<Rightarrow> bool" where
  "is_alert_for m (SendAlert s msg) = (s = subject m)"
| "is_alert_for m _ = False"

definition attempted :: "metric \<Rightarrow> event list \<Rightarrow> bool" where
  "attempted m evs = list_ex (is_alert_for m) evs"

definition threshold_value :: "SystemMonitor \<Rightarrow> metric \<Rightarrow> real option" where
  "threshold_value self m =
     (case getitem (thresholds self) (key m) of Inr y \<Rightarrow> num_of y | Inl e \<Rightarrow> None)"

definition cooldown_value :: "SystemMonitor \<Rightarrow> real option" where
  "cooldown_value self = num_of (alert_cooldown self)"

fun wording :: "metric \<Rightarrow> string" where
  "wording Cpu = ''CPU usage is ''"
| "wording Memory = ''Memory usage is ''"
| "wording Disk = ''Disk usage is ''"


section \<open>Concrete inputs\<close>

text \<open>
  Inputs on which the theorems are instantiated.  The monitor is the one that
  \<^verbatim>\<open>__init__\<close> builds from the built-in configuration; the library functions are
  fixed stand-ins (the theorems hold for any).  In \<open>example_env\<close> the CPU is above its
  threshold, the memory is exactly at it, the disk is below, and the SMTP server
  refuses the connection.
\<close>

definition example_lib :: pylib where
  "example_lib = \<lparr>strftime = (\<lambda>_. ''2024-12-01 12:00:00''), fmt_1f = (\<lambda>_. ''85.0''),
                   py_str = (\<lambda>_. ''80'')\<rparr>"

definition example_monitor :: SystemMonitor where
  "example_monitor =
     \<lparr>config = default_config,
      thresholds = YMap [(''cpu'', YInt 80), (''memory'', YInt 80), (''disk'', YInt 80)],
      email_config = YMap [(''smtp_server'', YStr ''smtp.gmail.com''),
                           (''smtp_port'', YInt 587),
                           (''sender'', YStr ''your-email@gmail.com''),
                           (''password'', YStr ''your-app-password''),
                           (''recipient'', YStr ''admin@example.com'')],
      interval = YInt 300,
      alert_cooldown = YInt 3600,
      last_alert_time = [''cpu'' \<mapsto> datetime_min, ''memory'' \<mapsto> datetime_min,
                         ''disk'' \<mapsto> datetime_min]\<rparr>"

definition example_env :: tick_env where
  "example_env =
     \<lparr>cpu_query = Inr 85, memory_query = Inr 80, disk_query = Inr 42.5,
      now_sample = 63868651200000000, now_check = 63868651200000250,
      smtp_connect = (\<lambda>server port. Inl (LibraryError ''Connection refused'')),
      smtp_deliver = (\<lambda>user password subject message. Inr ())\<rparr>"

definition example_usage :: ResourceUsage where
  "example_usage = \<lparr>cpu_percent = 85, memory_percent = 80, disk_percent = 42.5,
                      timestamp = 63868651200000000\<rparr>"

text \<open>
  A later tick: the monitor as the tick of \<open>example_env\<close> leaves it (the CPU alert was
  attempted at 63868651200000250), and a tick whose clock reads \<open>elapsed\<close> microseconds
  after that, with the CPU still above its threshold.  In \<open>failing_sampler_env\<close> the
  memory query of psutil raises.
\<close>

definition second_tick_monitor :: SystemMonitor where
  "second_tick_monitor =
     example_monitor\<lparr>last_alert_time :=
                       (last_alert_time example_monitor)(''cpu'' \<mapsto> 63868651200000250)\<rparr>"

definition second_tick_env :: "timedelta \<Rightarrow> tick_env" where
  "second_tick_env elapsed =
     \<lparr>cpu_query = Inr 90, memory_query = Inr 80, disk_query = Inr 42.5,
      now_sample = 63868651200000250 + elapsed - 250,
      now_check = 63868651200000250 + elapsed,
      smtp_connect = (\<lambda>server port. Inr ()),
      smtp_deliver = (\<lambda>user password subject message. Inr ())\<rparr>"

definition second_tick_usage :: "timedelta \<Rightarrow> ResourceUsage" where
  "second_tick_usage elapsed =
     \<lparr>cpu_percent = 90, memory_percent = 80, disk_percent = 42.5,
      timestamp = 63868651200000250 + elapsed - 250\<rparr>"

definition second_tick_last :: "metric \<Rightarrow> datetime" where
  "second_tick_last m = (case m of Cpu \<Rightarrow> 63868651200000250 | _ \<Rightarrow> datetime_min)"

definition failing_sampler_env :: tick_env where
  "failing_sampler_env = example_env\<lparr>memory_query := Inl (LibraryError ''psutil: access denied'')\<rparr>"

text \<open>
  For the statements about start-up: whether a loaded document is a dict with a given
  key; a file system without the configuration file; one with an empty file, which
  \<^verbatim>\<open>yaml.safe_load\<close> parses to \<^verbatim>\<open>None\<close>.
\<close>

definition has_key :: "yaml \<Rightarrow> string \<Rightarrow> bool" where
  "has_key d k = (case d of YMap items \<Rightarrow> k \<in> set (map fst items) | _ \<Rightarrow> False)"

definition missing_file :: "string \<Rightarrow> py_exception + string" where
  "missing_file path = Inl (LibraryError ''No such file or directory'')"

definition any_parser :: "string \<Rightarrow> py_exception + yaml" where
  "any_parser content = Inr YNull"

definition empty_file :: "string \<Rightarrow> py_exception + string" where
  "empty_file path = Inr []"

text \<open>
  Reading the report back: \<open>split_lines\<close> is \<^verbatim>\<open>text.split('\n')\<close>; the line of a metric is
  the fourth, fifth or sixth of the report, and its status is how it ends.  A library
  is newline-free when none of its three formatters produces a line break (Python's do
  not).  \<open>status_line\<close> names the shape of a metric line once its fields are evaluated.
\<close>

fun split_lines :: "string \<Rightarrow> string list" where
  "split_lines [] = [[]]"
| "split_lines (c # cs) =
     (if c = nl then [] # split_lines cs
      else (case split_lines cs of l # ls \<Rightarrow> (c # l) # ls | [] \<Rightarrow> [[c]]))"

fun line_no :: "metric \<Rightarrow> nat" where
  "line_no Cpu = 3"
| "line_no Memory = 4"
| "line_no Disk = 5"

fun label :: "metric \<Rightarrow> string" where
  "label Cpu = ''CPU Usage    : ''"
| "label Memory = ''Memory Usage : ''"
| "label Disk = ''Disk Usage   : ''"

definition report_line :: "metric \<Rightarrow> string \<Rightarrow> string" where
  "report_line m report = split_lines report ! line_no m"

definition shows_alert :: "string \<Rightarrow> bool" where
  "shows_alert line = suffix ''[red]ALERT[/red]'' line"

definition shows_ok :: "string \<Rightarrow> bool" where
  "shows_ok line = suffix ''[green]OK[/green]'' line"

definition newline_free :: "pylib \<Rightarrow> bool" where
  "newline_free L =
     ((\<forall>d. nl \<notin> set (strftime L d)) \<and> (\<forall>x. nl \<notin> set (fmt_1f L x)) \<and>
      (\<forall>y. nl \<notin> set (py_str L y)))"

definition status_line :: "pylib \<Rightarrow> metric \<Rightarrow> real \<Rightarrow> yaml \<Rightarrow> bool \<Rightarrow> string" where
  "status_line L m v shown over =
     (label m @ rjust 5 (fmt_1f L v) @ ''% (Threshold: '' @ py_str L shown @ ''%) - '')
       @ (if over then ''[red]ALERT[/red]'' else ''[green]OK[/green]'')"

text \<open>
  The monitor of the later tick with \<^verbatim>\<open>alert_cooldown: 3600.1\<close> in its configuration:
  the float nearest to 3600.1 is \<open>7916703622312755 / 2\<^sup>4\<^sup>1\<close>.
\<close>

definition fractional_cooldown_monitor :: SystemMonitor where
  "fractional_cooldown_monitor =
     second_tick_monitor\<lparr>alert_cooldown := YFloat (7916703622312755 / 2199023255552)\<rparr>"

section \<open>Division of integers into a float\<close>

lemma pow2_powr: "pow2 e = 2 powr (of_int e)"
proof (cases "0 \<le> e")
  case True
  then have "(2::real) powr (of_int e) = 2 powr (real (nat e))" by simp
  also have "\<dots> = 2 ^ nat e" by (rule powr_realpow) simp
  finally show ?thesis using True by (simp add: pow2_def)
next
  case False
  then have "(2::real) powr (of_int e) = 2 powr (- real (nat (- e)))" by simp
  also have "\<dots> = 1 / 2 powr (real (nat (- e)))" by (simp add: powr_minus divide_inverse)
  also have "(2::real) powr (real (nat (- e))) = 2 ^ nat (- e)" by (rule powr_realpow) simp
  finally show ?thesis using False by (simp add: pow2_def)
qed

lemma pow2_pos [simp]: "0 < pow2 e"
  by (simp add: pow2_powr)

lemma pow2_nonneg [simp]: "0 \<le> pow2 e"
  by (simp add: pow2_powr)

lemma pow2_neq0 [simp]: "pow2 e \<noteq> 0"
  by (simp add: pow2_powr)

lemma pow2_add: "pow2 (a + b) = pow2 a * pow2 b"
  by (simp add: pow2_powr powr_add)

lemma pow2_mono: "a \<le> b \<Longrightarrow> pow2 a \<le> pow2 b"
  by (simp add: pow2_powr)

lemma pow2_less_cancel: "pow2 a < pow2 b \<Longrightarrow> a < b"
  by (simp add: pow2_powr)

lemma pow2_nat: "0 \<le> e \<Longrightarrow> pow2 e = of_int (2 ^ nat e)"
  by (simp add: pow2_def)

lemma pow2_numeral [simp]: "pow2 (numeral n) = 2 ^ numeral n" "pow2 0 = 1" "pow2 1 = 2"
  "pow2 (- numeral n) = 1 / 2 ^ numeral n"
  by (simp_all add: pow2_def)

lemma bitlen_real_bounds:
  assumes "0 < a"
  shows "pow2 (bitlen a - 1) \<le> of_int a" and "of_int a < pow2 (bitlen a)"
proof -
  from assms have b1: "1 \<le> bitlen a" by (auto simp: bitlen_alt_def)
  from bitlen_bounds[OF assms]
  have "(2::int) ^ nat (bitlen a - 1) \<le> a" "a < 2 ^ nat (bitlen a)" by auto
  then have "real_of_int (2 ^ nat (bitlen a - 1)) \<le> of_int a"
    "real_of_int a < of_int (2 ^ nat (bitlen a))"
    by (simp_all only: of_int_le_iff of_int_less_iff)
  then show "pow2 (bitlen a - 1) \<le> of_int a" and "of_int a < pow2 (bitlen a)"
    using b1 by (simp_all add: pow2_nat)
qed

lemma quot_exponent_bounds:
  assumes "0 < a" "0 < b"
  shows "pow2 (quot_exponent a b) \<le> of_int a / of_int b"
    and "of_int a / of_int b < pow2 (quot_exponent a b + 1)"
proof -
  let ?k = "bitlen a - bitlen b"
  let ?x = "real_of_int a / of_int b"
  have rb: "0 < real_of_int b" using assms by simp
  note A = bitlen_real_bounds[OF assms(1)]
  note B = bitlen_real_bounds[OF assms(2)]
  have up: "?x < pow2 (?k + 1)"
  proof -
    have "pow2 (?k + 1) * pow2 (bitlen b - 1) = pow2 (bitlen a)"
      by (simp add: pow2_add[symmetric])
    then have "of_int a < pow2 (?k + 1) * pow2 (bitlen b - 1)" using A(2) by simp
    also have "\<dots> \<le> pow2 (?k + 1) * of_int b"
      using B(1) by (simp add: mult_left_mono)
    finally show ?thesis using rb by (simp add: pos_divide_less_eq)
  qed
  have lo: "pow2 (?k - 1) \<le> ?x"
  proof -
    have "pow2 (?k - 1) * pow2 (bitlen b) = pow2 (bitlen a - 1)"
      by (simp add: pow2_add[symmetric])
    moreover have "pow2 (?k - 1) * of_int b \<le> pow2 (?k - 1) * pow2 (bitlen b)"
      using B(2) by (simp add: mult_left_mono)
    ultimately have "pow2 (?k - 1) * of_int b \<le> of_int a" using A(1) by simp
    then show ?thesis using rb by (simp add: pos_le_divide_eq)
  qed
  show "pow2 (quot_exponent a b) \<le> ?x"
    using lo by (auto simp: quot_exponent_def Let_def)
  show "?x < pow2 (quot_exponent a b + 1)"
    using up by (auto simp: quot_exponent_def Let_def)
qed

lemma quot_exponent_unique:
  assumes "0 < a" "0 < b"
    and "pow2 k \<le> of_int a / of_int b" "of_int a / of_int b < pow2 (k + 1)"
  shows "quot_exponent a b = k"
proof -
  note Q = quot_exponent_bounds[OF assms(1,2)]
  have "pow2 (quot_exponent a b) < pow2 (k + 1)" using Q(1) assms(4) by simp
  then have "quot_exponent a b < k + 1" by (rule pow2_less_cancel)
  moreover have "pow2 k < pow2 (quot_exponent a b + 1)" using Q(2) assms(3) by simp
  then have "k < quot_exponent a b + 1" by (rule pow2_less_cancel)
  ultimately show ?thesis by simp
qed

lemma round_half_even_bounds:
  "\<lfloor>y\<rfloor> \<le> round_half_even y" "round_half_even y \<le> \<lceil>y\<rceil>"
proof -
  show "\<lfloor>y\<rfloor> \<le> round_half_even y" by (simp add: round_half_even_def Let_def)
  have "\<lfloor>y\<rfloor> + 1 \<le> \<lceil>y\<rceil>" if "y \<noteq> of_int \<lfloor>y\<rfloor>"
    using that by (metis ceiling_altdef order_refl)
  moreover have "\<lfloor>y\<rfloor> \<le> \<lceil>y\<rceil>" by (rule floor_le_ceiling)
  ultimately show "round_half_even y \<le> \<lceil>y\<rceil>"
    by (auto simp: round_half_even_def Let_def)
qed

lemma round_half_even_ge: "of_int n \<le> y \<Longrightarrow> n \<le> round_half_even y"
  using round_half_even_bounds(1)[of y] by (meson le_floor_iff order_trans)

lemma round_half_even_le: "y \<le> of_int n \<Longrightarrow> round_half_even y \<le> n"
  using round_half_even_bounds(2)[of y] by (meson ceiling_le_iff order_trans)


lemma true_div_pos:
  assumes "0 < a"
  shows "true_div a b =
           of_int (round_half_even (of_int a / of_int b / pow2 (quot_exponent a b - 52)))
             * pow2 (quot_exponent a b - 52)"
  using assms by (simp add: true_div_def Let_def)

lemma scaled_bounds:
  assumes "0 < a" "0 < b"
  shows "2 ^ 52 \<le> of_int a / of_int b / pow2 (quot_exponent a b - 52)"
    and "of_int a / of_int b / pow2 (quot_exponent a b - 52) < 2 ^ 53"
proof -
  let ?q = "quot_exponent a b"
  note Q = quot_exponent_bounds[OF assms]
  have "pow2 ?q = pow2 (52 + (?q - 52))" by (rule arg_cong[of _ _ pow2]) simp
  also have "\<dots> = pow2 52 * pow2 (?q - 52)" by (rule pow2_add)
  finally have 1: "pow2 ?q = 2 ^ 52 * pow2 (?q - 52)" by simp
  have "pow2 (?q + 1) = pow2 (53 + (?q - 52))" by (rule arg_cong[of _ _ pow2]) simp
  also have "\<dots> = pow2 53 * pow2 (?q - 52)" by (rule pow2_add)
  finally have 2: "pow2 (?q + 1) = 2 ^ 53 * pow2 (?q - 52)" by simp
  from Q(1) have "2 ^ 52 * pow2 (?q - 52) \<le> of_int a / of_int b" by (simp only: 1)
  then show "2 ^ 52 \<le> of_int a / of_int b / pow2 (?q - 52)"
    by (simp only: pos_le_divide_eq[OF pow2_pos])
  from Q(2) have "of_int a / of_int b < 2 ^ 53 * pow2 (?q - 52)" by (simp only: 2)
  then show "of_int a / of_int b / pow2 (?q - 52) < 2 ^ 53"
    by (simp only: pos_divide_less_eq[OF pow2_pos])
qed

lemma true_div_ge_pow2:
  assumes "0 < a" "0 < b"
  shows "2 ^ 52 * pow2 (quot_exponent a b - 52) \<le> true_div a b"
proof -
  let ?e = "quot_exponent a b - 52"
  let ?y = "real_of_int a / of_int b / pow2 ?e"
  have "real_of_int (2 ^ 52) \<le> ?y" using scaled_bounds(1)[OF assms] by simp
  then have "(2 ^ 52 :: int) \<le> round_half_even ?y" by (rule round_half_even_ge)
  then have "real_of_int (2 ^ 52) \<le> of_int (round_half_even ?y)" by (simp only: of_int_le_iff)
  then have "real_of_int (2 ^ 52) * pow2 ?e \<le> of_int (round_half_even ?y) * pow2 ?e"
    by (simp add: mult_right_mono)
  then show ?thesis unfolding true_div_pos[OF assms(1)] by simp
qed

text \<open>A quotient at or above an integer below \<open>2\<^sup>5\<^sup>3\<close> rounds to at least that integer.\<close>

lemma true_div_lower:
  assumes "0 < B" "B < 2 ^ 53" "B * b \<le> a" "0 < b"
  shows "of_int B \<le> true_div a b"
proof -
  have a: "0 < a" using assms by (smt (verit) mult_pos_pos)
  let ?e = "quot_exponent a b - 52"
  let ?y = "real_of_int a / of_int b / pow2 ?e"
  have x: "real_of_int B \<le> of_int a / of_int b"
  proof -
    have "real_of_int (B * b) \<le> of_int a" using assms(3) by (simp only: of_int_le_iff)
    then show ?thesis using assms(4) by (simp add: pos_le_divide_eq)
  qed
  show ?thesis
  proof (cases "?e \<le> 0")
    case True
    let ?N = "B * 2 ^ nat (- ?e)"
    have p: "pow2 ?e * of_int (2 ^ nat (- ?e)) = 1"
      using pow2_add[of ?e "- ?e"] True by (simp add: pow2_nat)
    have N: "real_of_int ?N * pow2 ?e = of_int B"
      using p by (simp add: mult.assoc mult.commute)
    have "of_int B / pow2 ?e = (real_of_int ?N * pow2 ?e) / pow2 ?e" by (simp only: N)
    then have "real_of_int ?N = of_int B / pow2 ?e" by simp
    also have "\<dots> \<le> ?y" by (rule divide_right_mono[OF x pow2_nonneg])
    finally have "?N \<le> round_half_even ?y" by (rule round_half_even_ge)
    then have "real_of_int ?N \<le> of_int (round_half_even ?y)" by (simp only: of_int_le_iff)
    then have "real_of_int ?N * pow2 ?e \<le> of_int (round_half_even ?y) * pow2 ?e"
      by (simp add: mult_right_mono)
    then show ?thesis unfolding true_div_pos[OF a] N .
  next
    case False
    then have "pow2 1 \<le> pow2 ?e" by (intro pow2_mono) simp
    then have "2 ^ 52 * 2 \<le> 2 ^ 52 * pow2 ?e" by simp
    also have "\<dots> \<le> true_div a b" by (rule true_div_ge_pow2[OF a assms(4)])
    finally have "2 ^ 53 \<le> true_div a b" by simp
    moreover have "real_of_int B < 2 ^ 53"
      using assms(2) by (metis of_int_less_iff of_int_numeral of_int_power)
    ultimately show ?thesis by simp
  qed
qed

text \<open>A positive quotient at or below an integer below \<open>2\<^sup>5\<^sup>3\<close> rounds to at most that integer.\<close>

lemma true_div_upper:
  assumes "0 < a" "a \<le> C * b" "C < 2 ^ 53" "0 < b"
  shows "true_div a b \<le> of_int C"
proof -
  let ?e = "quot_exponent a b - 52"
  let ?y = "real_of_int a / of_int b / pow2 ?e"
  have x: "of_int a / of_int b \<le> real_of_int C"
  proof -
    have "real_of_int a \<le> of_int (C * b)" using assms(2) by (simp only: of_int_le_iff)
    then show ?thesis using assms(4) by (simp add: pos_divide_le_eq)
  qed
  have C53: "real_of_int C < 2 ^ 53"
    using assms(3) by (metis of_int_less_iff of_int_numeral of_int_power)
  have e: "?e \<le> 0"
  proof (rule ccontr)
    assume "\<not> ?e \<le> 0"
    then have "pow2 1 \<le> pow2 ?e" by (intro pow2_mono) simp
    then have "2 ^ 52 * 2 \<le> 2 ^ 52 * pow2 ?e" by simp
    also have "\<dots> \<le> ?y * pow2 ?e"
      by (rule mult_right_mono[OF scaled_bounds(1)[OF assms(1,4)]]) simp
    also have "\<dots> = of_int a / of_int b" by simp
    finally show False using x C53 by simp
  qed
  let ?N = "C * 2 ^ nat (- ?e)"
  have p: "pow2 ?e * of_int (2 ^ nat (- ?e)) = 1"
    using pow2_add[of ?e "- ?e"] e by (simp add: pow2_nat)
  have N: "real_of_int ?N * pow2 ?e = of_int C"
    using p by (simp add: mult.assoc mult.commute)
  have "?y \<le> of_int C / pow2 ?e" by (rule divide_right_mono[OF x pow2_nonneg])
  also have "\<dots> = (real_of_int ?N * pow2 ?e) / pow2 ?e" by (simp only: N)
  also have "\<dots> = real_of_int ?N" by simp
  finally have "round_half_even ?y \<le> ?N" by (rule round_half_even_le)
  then have "real_of_int (round_half_even ?y) \<le> of_int ?N" by (simp only: of_int_le_iff)
  then have "of_int (round_half_even ?y) * pow2 ?e \<le> real_of_int ?N * pow2 ?e"
    by (simp add: mult_right_mono)
  then show ?thesis unfolding true_div_pos[OF assms(1)] N .
qed

lemma true_div_nonpos: "a \<le> 0 \<Longrightarrow> 0 < b \<Longrightarrow> true_div a b \<le> 0"
proof -
  assume a: "a \<le> 0" and b: "0 < b"
  show ?thesis
  proof (cases "a = 0")
    case True then show ?thesis by (simp add: true_div_def)
  next
    case False
    with a have neg: "a < 0" by simp
    let ?e = "quot_exponent \<bar>a\<bar> b - 52"
    let ?y = "real_of_int \<bar>a\<bar> / of_int b / pow2 ?e"
    have "0 < \<bar>a\<bar>" using neg by simp
    from scaled_bounds(1)[OF this b] have "real_of_int 0 \<le> ?y" by simp
    then have "0 \<le> round_half_even ?y" by (rule round_half_even_ge)
    then have "0 \<le> real_of_int (round_half_even ?y)" by simp
    then have "0 \<le> real_of_int (round_half_even ?y) * pow2 ?e" by simp
    moreover have "sgn a = - 1" using neg by simp
    ultimately show ?thesis using False
      by (simp only: true_div_def Let_def if_False mult_minus1 of_int_minus mult_minus_left
          neg_le_0_iff_le)
  qed
qed


text \<open>With a divisor of at most \<open>2\<^sup>2\<^sup>0\<close>, a quotient strictly above an integer below
  \<open>2\<^sup>3\<^sup>3\<close> still is strictly above it after rounding.\<close>

lemma true_div_strict:
  assumes "0 \<le> C" "C < 2 ^ 33" "0 < b" "b \<le> 2 ^ 20" "C * b + 1 \<le> a"
  shows "of_int C < true_div a b"
proof -
  have "0 \<le> C * b" using assms(1,3) by simp
  with assms(5) have a: "0 < a" by simp
  let ?e = "quot_exponent a b - 52"
  let ?x = "real_of_int a / of_int b"
  let ?y = "?x / pow2 ?e"
  have rb: "0 < real_of_int b" using assms(3) by simp
  have C33: "real_of_int C < 2 ^ 33"
    using assms(2) by (metis of_int_less_iff of_int_numeral of_int_power)
  show ?thesis
  proof (cases "?e \<le> - 20")
    case True
    have "real_of_int (C * b + 1) \<le> of_int a" using assms(5) by (simp only: of_int_le_iff)
    then have "real_of_int C * of_int b + 1 \<le> of_int a" by simp
    then have "(real_of_int C * of_int b + 1) / of_int b \<le> ?x"
      by (rule divide_right_mono) (use rb in simp)
    moreover have "(real_of_int C * of_int b + 1) / of_int b = of_int C + 1 / of_int b"
      using rb by (simp add: field_simps)
    ultimately have x1: "of_int C + 1 / of_int b \<le> ?x" by simp
    have "real_of_int b \<le> of_int (2 ^ 20)" using assms(4) by (simp only: of_int_le_iff)
    then have "real_of_int b \<le> 2 ^ 20" by simp
    then have "1 / 2 ^ 20 \<le> 1 / real_of_int b"
      using rb by (simp add: frac_le)
    moreover have "pow2 ?e \<le> pow2 (- 20)" using True by (rule pow2_mono)
    then have "pow2 ?e \<le> 1 / 2 ^ 20" by simp
    ultimately have "of_int C + pow2 ?e \<le> ?x" using x1 by simp
    then have x2: "of_int C \<le> ?x - pow2 ?e" by simp
    have "?y - 1 < of_int \<lfloor>?y\<rfloor>" by linarith
    also have "\<dots> \<le> of_int (round_half_even ?y)"
      using round_half_even_bounds(1)[of ?y] by (simp only: of_int_le_iff)
    finally have m: "(?y - 1) * pow2 ?e < of_int (round_half_even ?y) * pow2 ?e"
      by (rule mult_strict_right_mono) simp
    have eq: "(?y - 1) * pow2 ?e = ?x - pow2 ?e"
      by (simp add: left_diff_distrib)
    from m have "?x - pow2 ?e < of_int (round_half_even ?y) * pow2 ?e"
      by (simp only: eq)
    then have "?x - pow2 ?e < true_div a b"
      by (simp only: true_div_pos[OF a])
    with x2 show ?thesis by simp
  next
    case False
    then have "pow2 (- 19) \<le> pow2 ?e" by (intro pow2_mono) simp
    then have "2 ^ 52 * pow2 (- 19) \<le> 2 ^ 52 * pow2 ?e" by simp
    also have "\<dots> \<le> true_div a b" by (rule true_div_ge_pow2[OF a assms(3)])
    finally have "2 ^ 33 \<le> true_div a b" by simp
    with C33 show ?thesis by simp
  qed
qed

lemma true_div_eval:
  assumes "0 < a" "0 < b"
    and "pow2 k \<le> of_int a / of_int b" "of_int a / of_int b < pow2 (k + 1)"
  shows "true_div a b =
           of_int (round_half_even (of_int a / of_int b / pow2 (k - 52))) * pow2 (k - 52)"
  unfolding true_div_pos[OF assms(1)] quot_exponent_unique[OF assms] ..

lemma round_half_even_eval:
  assumes "of_int n \<le> y" "y < of_int n + 1 / 2"
  shows "round_half_even y = n"
proof -
  have "\<lfloor>y\<rfloor> = n" using assms by linarith
  then show ?thesis using assms by (simp add: round_half_even_def Let_def)
qed

text \<open>What is used of \<^verbatim>\<open>total_seconds()\<close>: it respects integer bounds below \<open>2\<^sup>5\<^sup>3\<close>, and
  against a whole number of seconds below \<open>2\<^sup>3\<^sup>3\<close> (some 272 years) it compares as the
  exact quotient does.\<close>

lemma total_seconds_lower:
  "0 < B \<Longrightarrow> B < 2 ^ 53 \<Longrightarrow> B * 1000000 \<le> td \<Longrightarrow> of_int B \<le> total_seconds td"
  unfolding total_seconds_def by (rule true_div_lower) simp_all

lemma total_seconds_upper:
  "0 < td \<Longrightarrow> td \<le> C * 1000000 \<Longrightarrow> C < 2 ^ 53 \<Longrightarrow> total_seconds td \<le> of_int C"
  unfolding total_seconds_def by (rule true_div_upper) simp_all

lemma total_seconds_nonpos: "td \<le> 0 \<Longrightarrow> total_seconds td \<le> 0"
  unfolding total_seconds_def by (rule true_div_nonpos) simp_all

lemma total_seconds_whole:
  assumes "0 \<le> n" "n < 2 ^ 33"
  shows "of_int n < total_seconds td \<longleftrightarrow> n * 1000000 < td"
proof
  assume "n * 1000000 < td"
  then have "n * 1000000 + 1 \<le> td" by simp
  then show "of_int n < total_seconds td"
    unfolding total_seconds_def by (intro true_div_strict assms) simp_all
next
  assume gt: "of_int n < total_seconds td"
  show "n * 1000000 < td"
  proof (rule ccontr)
    assume "\<not> n * 1000000 < td"
    then have le: "td \<le> n * 1000000" by simp
    have "total_seconds td \<le> of_int n"
    proof (cases "td \<le> 0")
      case True
      from total_seconds_nonpos[OF this] assms(1) show ?thesis by simp
    next
      case False
      then have "0 < td" by simp
      moreover have "n < 2 ^ 53" using assms(2) by simp
      ultimately show ?thesis using le by (intro total_seconds_upper)
    qed
    with gt show False by simp
  qed
qed

lemma example_elapsed: "3600 < total_seconds 63868651200000250"
proof -
  have "real_of_int 3601 \<le> total_seconds 63868651200000250"
    by (rule total_seconds_lower) simp_all
  then show ?thesis by simp
qed

lemma total_seconds_3600_1:
  "total_seconds 3600100000 = 7916703622312755 / 2199023255552"
proof -
  have "true_div 3600100000 1000000 =
      of_int (round_half_even (of_int 3600100000 / of_int 1000000 / pow2 (11 - 52))) * pow2 (11 - 52)"
    by (rule true_div_eval) simp_all
  moreover have "round_half_even (of_int 3600100000 / of_int 1000000 / pow2 (11 - 52))
      = 7916703622312755"
    by (rule round_half_even_eval) simp_all
  ultimately show ?thesis by (simp add: total_seconds_def)
qed

section \<open>One tick on a numeric configuration\<close>

lemma and_then_simps [simp]:
  "and_then (Inl e) f = Inl e"
  "and_then (Inr v) f = f v"
  by (simp_all add: and_then_def)

lemma send_alert_frame [simp]:
  "send_alert env (self\<lparr>last_alert_time := x\<rparr>) subj msg = send_alert env self subj msg"
  by (simp add: send_alert_def)

lemma attempted_send_alert [simp]:
  "attempted m (send_alert env self subj msg) = (subj = subject m)"
  by (simp add: attempted_def send_alert_def split: sum.splits)

lemma attempted_append [simp]:
  "attempted m (xs @ ys) = (attempted m xs \<or> attempted m ys)"
  by (simp add: attempted_def)

lemma attempted_simps [simp]:
  "attempted m [] = False"
  "attempted m (ConsolePrint r # evs) = attempted m evs"
  "attempted m (Log l x # evs) = attempted m evs"
  by (simp_all add: attempted_def)

lemma threshold_valueD:
  "threshold_value self m = Some t \<Longrightarrow> \<exists>y. getitem (thresholds self) (key m) = Inr y \<and> num_of y = Some t"
  by (auto simp: threshold_value_def split: sum.splits)

lemma alert_block_numeric:
  assumes "threshold_value self m = Some t"
    and "key m = k"
    and "last_alert_time self k = Some prev"
    and "cooldown_value self = Some c"
  shows "alert_block L env now k v subj txt self =
           Inr (if v > t \<and> total_seconds (now - prev) > c
                then (self\<lparr>last_alert_time := (last_alert_time self)(k \<mapsto> now)\<rparr>,
                      send_alert env self subj (txt @ fmt_1f L v @ ''%''))
                else (self, []))"
  using assms threshold_valueD[OF assms(1)]
  by (auto simp: alert_block_def py_gt_def lookup_def cooldown_value_def)

lemma threshold_value_frame [simp]:
  "threshold_value (self\<lparr>last_alert_time := x\<rparr>) m = threshold_value self m"
  by (simp add: threshold_value_def)

lemma cooldown_value_frame [simp]:
  "cooldown_value (self\<lparr>last_alert_time := x\<rparr>) = cooldown_value self"
  by (simp add: cooldown_value_def)

lemma metric_line_numeric:
  assumes "threshold_value self m = Some t" and "key m = k"
  shows "\<exists>shown. getitem (thresholds self) k = Inr shown \<and> metric_line L self lbl v k =
     Inr (lbl @ rjust 5 (fmt_1f L v) @ ''% (Threshold: '' @ py_str L shown @ ''%) - ''
            @ (if v > t then ''[red]ALERT[/red]'' else ''[green]OK[/green]''))"
  using assms threshold_valueD[OF assms(1)]
  by (auto simp: metric_line_def py_gt_def)

lemma format_usage_report_numeric:
  assumes "\<And>m. threshold_value self m \<noteq> None"
  shows "\<exists>report. format_usage_report L self u = Inr report"
proof -
  obtain a where a: "metric_line L self ''CPU Usage    : '' (cpu_percent u) ''cpu'' = Inr a"
    using metric_line_numeric[of self Cpu _ "''cpu''"] assms[of Cpu] by fastforce
  obtain b where b: "metric_line L self ''Memory Usage : '' (memory_percent u) ''memory'' = Inr b"
    using metric_line_numeric[of self Memory _ "''memory''"] assms[of Memory] by fastforce
  obtain c where c: "metric_line L self ''Disk Usage   : '' (disk_percent u) ''disk'' = Inr c"
    using metric_line_numeric[of self Disk _ "''disk''"] assms[of Disk] by fastforce
  show ?thesis by (simp add: format_usage_report_def a b c)
qed

lemma get_resource_usage_Inr:
  "get_resource_usage env = (Inr u, ev0) \<Longrightarrow> ev0 = []"
  by (auto simp: get_resource_usage_def split: sum.splits)

lemma check_resources_try_numeric:
  assumes usage: "get_resource_usage env = (Inr u, ev0)"
    and th: "\<And>m. threshold_value self m = Some (t m)"
    and la: "\<And>m. last_alert_time self (key m) = Some (p m)"
    and cd: "cooldown_value self = Some c"
  shows "\<exists>report s' evs.
           format_usage_report L self u = Inr report \<and>
           check_resources_try L env self = (None, s', ConsolePrint report # evs) \<and>
           s' = self\<lparr>last_alert_time := last_alert_time s'\<rparr> \<and>
           (\<forall>m. last_alert_time s' (key m) =
                  Some (if t m < reading m u \<and> c < total_seconds (now_check env - p m)
                        then now_check env else p m)) \<and>
           (\<forall>m. attempted m evs =
                  (t m < reading m u \<and> c < total_seconds (now_check env - p m)))"
proof -
  let ?now = "now_check env"
  let ?due = "\<lambda>m. t m < reading m u \<and> c < total_seconds (?now - p m)"
  let ?upd = "\<lambda>m s. if ?due m then s\<lparr>last_alert_time := (last_alert_time s)(key m \<mapsto> ?now)\<rparr> else s"
  let ?al = "\<lambda>m. if ?due m then send_alert env self (subject m) (wording m @ fmt_1f L (reading m u) @ ''%'') else []"
  have ev0: "ev0 = []" using usage by (rule get_resource_usage_Inr)
  obtain report where rep: "format_usage_report L self u = Inr report"
    using format_usage_report_numeric[of self L u] th by fastforce
  let ?s1 = "?upd Cpu self"
  let ?s2 = "?upd Memory ?s1"
  let ?s3 = "?upd Disk ?s2"
  have b1: "alert_block L env ?now ''cpu'' (cpu_percent u) ''High CPU Usage Alert'' ''CPU usage is '' self
              = Inr (?s1, ?al Cpu)"
    using alert_block_numeric[OF th[of Cpu] _ la[of Cpu] cd]
    by simp
  have th1: "threshold_value ?s1 Memory = Some (t Memory)" using th[of Memory] by simp
  have la1: "last_alert_time ?s1 (key Memory) = Some (p Memory)" using la[of Memory] by simp
  have cd1: "cooldown_value ?s1 = Some c" using cd by simp
  have b2: "alert_block L env ?now ''memory'' (memory_percent u) ''High Memory Usage Alert'' ''Memory usage is '' ?s1
              = Inr (?s2, ?al Memory)"
    using alert_block_numeric[OF th1 _ la1 cd1]
    by simp
  have th2: "threshold_value ?s2 Disk = Some (t Disk)" using th[of Disk] by simp
  have la2: "last_alert_time ?s2 (key Disk) = Some (p Disk)" using la[of Disk] by simp
  have cd2: "cooldown_value ?s2 = Some c" using cd by simp
  have b3: "alert_block L env ?now ''disk'' (disk_percent u) ''High Disk Usage Alert'' ''Disk usage is '' ?s2
              = Inr (?s3, ?al Disk)"
    using alert_block_numeric[OF th2 _ la2 cd2]
    by simp
  have run: "check_resources_try L env self = (None, ?s3, ConsolePrint report # (?al Cpu @ ?al Memory @ ?al Disk))"
    by (simp only: check_resources_try_def usage rep b1 b2 b3 ev0 Let_def prod.case sum.case
          append_Nil append_Cons)
  have frame: "?s3 = self\<lparr>last_alert_time := last_alert_time ?s3\<rparr>" by simp
  have times: "last_alert_time ?s3 (key m) = Some (if ?due m then ?now else p m)" for m
    using la[of Cpu] la[of Memory] la[of Disk] by (cases m) simp_all
  have att: "attempted m (?al Cpu @ ?al Memory @ ?al Disk) = ?due m" for m
    by (cases m) simp_all
  show ?thesis
    using rep run frame times att by blast
qed

lemma example_usage: "get_resource_usage example_env = (Inr example_usage, [])"
  by (simp add: get_resource_usage_def example_env_def example_usage_def)

lemma example_thresholds: "threshold_value example_monitor m = Some 80"
  by (cases m) (simp_all add: threshold_value_def example_monitor_def getitem_def)

lemma example_tracked: "last_alert_time example_monitor (key m) = Some datetime_min"
  by (cases m) (simp_all add: example_monitor_def)

lemma example_cooldown: "cooldown_value example_monitor = Some 3600"
  by (simp add: cooldown_value_def example_monitor_def)

lemma check_resources_numeric:
  assumes run: "check_resources L env self = (r, s', evs)"
    and usage: "get_resource_usage env = (Inr u, ev0)"
    and th: "\<forall>m. threshold_value self m = Some (t m)"
    and la: "\<forall>m. last_alert_time self (key m) = Some (p m)"
    and cd: "cooldown_value self = Some c"
  shows "\<exists>report rest.
           format_usage_report L self u = Inr report \<and>
           r = Inr () \<and> evs = ConsolePrint report # rest \<and>
           s' = self\<lparr>last_alert_time := last_alert_time s'\<rparr> \<and>
           (\<forall>m. last_alert_time s' (key m) =
                  Some (if t m < reading m u \<and> c < total_seconds (now_check env - p m)
                        then now_check env else p m)) \<and>
           (\<forall>m. attempted m rest =
                  (t m < reading m u \<and> c < total_seconds (now_check env - p m)))"
proof -
  from check_resources_try_numeric[OF usage, of self t p c L] th la cd
  obtain report s1 rest where
    "format_usage_report L self u = Inr report"
    "check_resources_try L env self = (None, s1, ConsolePrint report # rest)"
    "s1 = self\<lparr>last_alert_time := last_alert_time s1\<rparr>"
    "\<forall>m. last_alert_time s1 (key m) =
                  Some (if t m < reading m u \<and> c < total_seconds (now_check env - p m)
                        then now_check env else p m)"
    "\<forall>m. attempted m rest =
                  (t m < reading m u \<and> c < total_seconds (now_check env - p m))"
    by blast
  moreover from this(2) run have "r = Inr ()" "s' = s1" "evs = ConsolePrint report # rest"
    by (simp_all add: check_resources_def)
  ultimately show ?thesis by blast
qed

text \<open>
  Claim C1.  On a configuration whose thresholds and cooldown are numbers, in a tick
  whose sample succeeded and for a metric whose cooldown has elapsed, \<^verbatim>\<open>check_resources\<close>
  treats the metric as breached (attempts its alert) if and only if the sampled value
  is strictly greater than the metric's threshold; a value equal to the threshold is
  not a breach.
\<close>

theorem breach_iff_above_threshold:
  assumes "check_resources L env self = (r, s', evs)"
    and "get_resource_usage env = (Inr u, ev0)"
    and "\<forall>k. threshold_value self k = Some (t k)"
    and "\<forall>k. last_alert_time self (key k) = Some (p k)"
    and "cooldown_value self = Some c"
    and "c < total_seconds (now_check env - p m)"
  shows "(attempted m evs \<longleftrightarrow> t m < reading m u) \<and>
         (reading m u = t m \<longrightarrow> \<not> attempted m evs)"
  using check_resources_numeric[OF assms(1-5)] assms(6) by auto

theorem breach_iff_above_threshold_witness:
  "get_resource_usage example_env = (Inr example_usage, []) \<and>
   (\<forall>k. threshold_value example_monitor k = Some 80) \<and>
   (\<forall>k. last_alert_time example_monitor (key k) = Some datetime_min) \<and>
   cooldown_value example_monitor = Some 3600 \<and>
   3600 < total_seconds (now_check example_env - datetime_min) \<and>
   reading Cpu example_usage = 85 \<and> reading Memory example_usage = 80 \<and>
   attempted Cpu (snd (snd (check_resources example_lib example_env example_monitor))) \<and>
   \<not> attempted Memory (snd (snd (check_resources example_lib example_env example_monitor)))"
proof -
  have run: "check_resources example_lib example_env example_monitor =
          (fst (check_resources example_lib example_env example_monitor),
           fst (snd (check_resources example_lib example_env example_monitor)),
           snd (snd (check_resources example_lib example_env example_monitor)))"
    by simp
  have th: "\<forall>k. threshold_value example_monitor k = Some ((\<lambda>_. 80) k)"
    by (simp add: example_thresholds)
  have la: "\<forall>k. last_alert_time example_monitor (key k) = Some ((\<lambda>_. datetime_min) k)"
    by (simp add: example_tracked)
  have due: "3600 < total_seconds (now_check example_env - datetime_min)"
    by (simp add: example_env_def datetime_min_def example_elapsed)
  have rd: "reading Cpu example_usage = 85" "reading Memory example_usage = 80"
    by (simp_all add: example_usage_def)
  show ?thesis
    using breach_iff_above_threshold[OF run example_usage th la example_cooldown, of Cpu]
      breach_iff_above_threshold[OF run example_usage th la example_cooldown, of Memory]
      due rd example_usage th la example_cooldown
    by simp
qed

section \<open>Cooldown, failures and the report\<close>

lemma second_tick_usage: "get_resource_usage (second_tick_env d) = (Inr (second_tick_usage d), [])"
  by (simp add: get_resource_usage_def second_tick_env_def second_tick_usage_def)

lemma second_tick_thresholds: "threshold_value second_tick_monitor m = Some 80"
  by (simp add: second_tick_monitor_def example_thresholds)

lemma second_tick_tracked: "last_alert_time second_tick_monitor (key m) = Some (second_tick_last m)"
  by (cases m) (simp_all add: second_tick_monitor_def second_tick_last_def example_monitor_def)

lemma second_tick_cooldown: "cooldown_value second_tick_monitor = Some 3600"
  by (simp add: second_tick_monitor_def example_cooldown)

lemma run_collapse: "f = (fst f, fst (snd f), snd (snd f))"
  by simp

text \<open>
  Claim C2 as stated, that an elapsed time strictly greater than the cooldown window
  re-triggers the alert, fails: the source compares \<^verbatim>\<open>total_seconds()\<close>, a rounded float,
  with the window.  With \<^verbatim>\<open>alert_cooldown: 3600.1\<close>, which YAML loads as the float
  \<open>7916703622312755 / 2\<^sup>4\<^sup>1\<close> (just below 3600.1), and a tick 3600100000 microseconds after
  the recorded alert, the elapsed 3600.1 seconds exceed the window, but
  \<^verbatim>\<open>total_seconds()\<close> is that same float and no alert is attempted.
\<close>

theorem cooldown_exceeded_counterexample:
  "cooldown_value fractional_cooldown_monitor = Some (7916703622312755 / 2199023255552) \<and>
   last_alert_time fractional_cooldown_monitor (key Cpu) = Some (second_tick_last Cpu) \<and>
   now_check (second_tick_env 3600100000) - second_tick_last Cpu = 3600100000 \<and>
   (7916703622312755 / 2199023255552 :: real) < 3600100000 / 1000000 \<and>
   get_resource_usage (second_tick_env 3600100000) = (Inr (second_tick_usage 3600100000), []) \<and>
   threshold_value fractional_cooldown_monitor Cpu = Some 80 \<and>
   80 < reading Cpu (second_tick_usage 3600100000) \<and>
   \<not> attempted Cpu
       (snd (snd (check_resources example_lib (second_tick_env 3600100000) fractional_cooldown_monitor)))"
proof -
  have "threshold_value fractional_cooldown_monitor k = threshold_value second_tick_monitor k" for k
    by (simp add: fractional_cooldown_monitor_def threshold_value_def)
  then have th: "\<forall>k. threshold_value fractional_cooldown_monitor k = Some ((\<lambda>_. 80) k)"
    by (simp add: second_tick_thresholds)
  have la: "\<forall>k. last_alert_time fractional_cooldown_monitor (key k) = Some (second_tick_last k)"
    by (simp add: fractional_cooldown_monitor_def second_tick_tracked)
  have cd: "cooldown_value fractional_cooldown_monitor = Some (7916703622312755 / 2199023255552)"
    by (simp add: fractional_cooldown_monitor_def cooldown_value_def)
  have el: "now_check (second_tick_env 3600100000) - second_tick_last Cpu = 3600100000"
    by (simp add: second_tick_env_def second_tick_last_def)
  have rd: "80 < reading Cpu (second_tick_usage 3600100000)"
    by (simp add: second_tick_usage_def)
  from check_resources_numeric[OF run_collapse second_tick_usage[of 3600100000] th la cd,
      of example_lib]
  obtain report rest where
    e: "snd (snd (check_resources example_lib (second_tick_env 3600100000) fractional_cooldown_monitor))
          = ConsolePrint report # rest"
    and a: "\<forall>m. attempted m rest =
              ((\<lambda>_. 80) m < reading m (second_tick_usage 3600100000) \<and>
               7916703622312755 / 2199023255552
                 < total_seconds (now_check (second_tick_env 3600100000) - second_tick_last m))"
    by blast
  have "\<not> attempted Cpu rest"
    unfolding a[rule_format, of Cpu] el total_seconds_3600_1 by simp
  then have "\<not> attempted Cpu
          (snd (snd (check_resources example_lib (second_tick_env 3600100000) fractional_cooldown_monitor)))"
    by (simp add: e)
  then show ?thesis
    using th la[rule_format, of Cpu] cd el rd second_tick_usage[of 3600100000] by simp
qed

text \<open>
  Claim C2, amended.  For a metric with a recorded last-alert time that is in breach, the
  alert is attempted exactly when \<^verbatim>\<open>total_seconds()\<close> of the elapsed time, the elapsed
  microseconds over \<open>10\<^sup>6\<close> rounded to the nearest float, is strictly greater than the
  cooldown window; a value equal to the window suppresses it.  For a window of a whole
  number of seconds below \<open>2\<^sup>3\<^sup>3\<close> that is exactly when the elapsed time is strictly
  greater than the window: an elapsed time less than or equal to it suppresses the
  alert, a strictly greater one re-triggers it.
\<close>

theorem alert_iff_seconds_exceed_cooldown:
  assumes "check_resources L env self = (r, s', evs)"
    and "get_resource_usage env = (Inr u, ev0)"
    and "\<forall>k. threshold_value self k = Some (t k)"
    and "\<forall>k. last_alert_time self (key k) = Some (p k)"
    and "cooldown_value self = Some c"
    and "t m < reading m u"
  shows "(attempted m evs \<longleftrightarrow> c < total_seconds (now_check env - p m)) \<and>
         (total_seconds (now_check env - p m) = c \<longrightarrow> \<not> attempted m evs) \<and>
         (\<forall>n. c = of_int n \<and> 0 \<le> n \<and> n < 2 ^ 33 \<longrightarrow>
               (attempted m evs \<longleftrightarrow> n * 1000000 < now_check env - p m))"
proof -
  have 1: "attempted m evs \<longleftrightarrow> c < total_seconds (now_check env - p m)"
    using check_resources_numeric[OF assms(1-5)] assms(6) by auto
  have "attempted m evs \<longleftrightarrow> n * 1000000 < now_check env - p m"
    if "c = of_int n \<and> 0 \<le> n \<and> n < 2 ^ 33" for n
    using 1 that total_seconds_whole[of n "now_check env - p m"] by simp
  with 1 show ?thesis by auto
qed

theorem alert_iff_seconds_exceed_cooldown_witness:
  "(\<forall>k. threshold_value second_tick_monitor k = Some 80) \<and>
   (\<forall>k. last_alert_time second_tick_monitor (key k) = Some (second_tick_last k)) \<and>
   cooldown_value second_tick_monitor = Some (of_int 3600) \<and>
   get_resource_usage (second_tick_env 3600000000) = (Inr (second_tick_usage 3600000000), []) \<and>
   get_resource_usage (second_tick_env 3600000001) = (Inr (second_tick_usage 3600000001), []) \<and>
   80 < reading Cpu (second_tick_usage 3600000000) \<and>
   80 < reading Cpu (second_tick_usage 3600000001) \<and>
   now_check (second_tick_env 3600000000) - second_tick_last Cpu = 3600 * 1000000 \<and>
   \<not> attempted Cpu (snd (snd (check_resources example_lib (second_tick_env 3600000000) second_tick_monitor))) \<and>
   now_check (second_tick_env 3600000001) - second_tick_last Cpu = 3600 * 1000000 + 1 \<and>
   attempted Cpu (snd (snd (check_resources example_lib (second_tick_env 3600000001) second_tick_monitor)))"
proof -
  have th: "\<forall>k. threshold_value second_tick_monitor k = Some ((\<lambda>_. 80) k)"
    by (simp add: second_tick_thresholds)
  have la: "\<forall>k. last_alert_time second_tick_monitor (key k) = Some (second_tick_last k)"
    by (simp add: second_tick_tracked)
  have cd: "cooldown_value second_tick_monitor = Some (of_int 3600)"
    by (simp add: second_tick_cooldown)
  have rd: "80 < reading Cpu (second_tick_usage d)" for d
    by (simp add: second_tick_usage_def)
  have e0: "now_check (second_tick_env 3600000000) - second_tick_last Cpu = 3600 * 1000000"
    by (simp add: second_tick_env_def second_tick_last_def)
  have e1: "now_check (second_tick_env 3600000001) - second_tick_last Cpu = 3600 * 1000000 + 1"
    by (simp add: second_tick_env_def second_tick_last_def)
  have w: "(of_int 3600 :: real) = of_int 3600 \<and> (0::int) \<le> 3600 \<and> (3600::int) < 2 ^ 33" by simp
  from alert_iff_seconds_exceed_cooldown[OF run_collapse second_tick_usage th la cd rd,
        of example_lib 3600000000] w e0
  have n0: "\<not> attempted Cpu (snd (snd (check_resources example_lib (second_tick_env 3600000000) second_tick_monitor)))"
    by (metis less_irrefl)
  from alert_iff_seconds_exceed_cooldown[OF run_collapse second_tick_usage th la cd rd,
        of example_lib 3600000001] w e1
  have n1: "attempted Cpu (snd (snd (check_resources example_lib (second_tick_env 3600000001) second_tick_monitor)))"
    by (metis zless_add1_eq order_refl)
  show ?thesis
    using th la cd second_tick_usage rd e0 e1 n0 n1 by simp
qed

lemma alert_block_cases:
  "alert_block L env now k v subj txt s = Inr (s', a) \<Longrightarrow>
     (s' = s \<and> a = []) \<or>
     (s' = s\<lparr>last_alert_time := (last_alert_time s)(k \<mapsto> now)\<rparr> \<and>
      a = send_alert env s subj (txt @ fmt_1f L v @ ''%''))"
  by (auto simp: alert_block_def and_then_def split: sum.splits if_splits)

lemma check_resources_try_changes:
  assumes "check_resources_try L env self = (x, s', evs)"
    and "last_alert_time s' k \<noteq> last_alert_time self k"
  shows "\<exists>m. k = key m \<and> attempted m evs"
proof -
  let ?Q = "\<lambda>s evs. \<forall>k. last_alert_time s k \<noteq> last_alert_time self k \<longrightarrow> (\<exists>m. k = key m \<and> attempted m evs)"
  have step: "?Q s2 (evs1 @ a)"
    if "?Q s1 evs1" "alert_block L env now (key m) v (subject m) w s1 = Inr (s2, a)"
    for s1 s2 evs1 a now m v w
    using alert_block_cases[OF that(2)] that(1) by (auto split: if_splits) blast+
  have Q0: "?Q self evs0" for evs0 by simp
  have "?Q s' evs"
  proof (cases "get_resource_usage env")
    case (Pair ru ev0)
    show ?thesis
    proof (cases ru)
      case (Inl e)
      with Pair assms(1) show ?thesis by (auto simp: check_resources_try_def)
    next
      case (Inr u)
      show ?thesis
      proof (cases "format_usage_report L self u")
        case (Inl e)
        with Pair \<open>ru = Inr u\<close> assms(1) show ?thesis by (auto simp: check_resources_try_def)
      next
        case rep: (Inr report)
        let ?ev1 = "ev0 @ [ConsolePrint report]"
        let ?now = "now_check env"
        show ?thesis
        proof (cases "alert_block L env ?now (key Cpu) (cpu_percent u) (subject Cpu) ''CPU usage is '' self")
          case (Inl e)
          with Pair \<open>ru = Inr u\<close> rep assms(1) show ?thesis
            by (auto simp: check_resources_try_def Let_def)
        next
          case (Inr r1)
          obtain s1 a1 where r1: "r1 = (s1, a1)" by (cases r1)
          have b1: "alert_block L env ?now (key Cpu) (cpu_percent u) (subject Cpu) ''CPU usage is '' self = Inr (s1, a1)"
            using Inr r1 by simp
          have Q1: "?Q s1 (?ev1 @ a1)" by (rule step[OF Q0 b1])
          show ?thesis
          proof (cases "alert_block L env ?now (key Memory) (memory_percent u) (subject Memory) ''Memory usage is '' s1")
            case (Inl e)
            with Pair \<open>ru = Inr u\<close> rep b1 assms(1) Q1 show ?thesis
              by (auto simp: check_resources_try_def Let_def)
          next
            case (Inr r2)
            obtain s2 a2 where r2: "r2 = (s2, a2)" by (cases r2)
            have b2: "alert_block L env ?now (key Memory) (memory_percent u) (subject Memory) ''Memory usage is '' s1 = Inr (s2, a2)"
              using Inr r2 by simp
            have Q2: "?Q s2 ((?ev1 @ a1) @ a2)" by (rule step[OF Q1 b2])
            show ?thesis
            proof (cases "alert_block L env ?now (key Disk) (disk_percent u) (subject Disk) ''Disk usage is '' s2")
              case (Inl e)
              with Pair \<open>ru = Inr u\<close> rep b1 b2 assms(1) Q2 show ?thesis
                by (auto simp: check_resources_try_def Let_def)
            next
              case (Inr r3)
              obtain s3 a3 where r3: "r3 = (s3, a3)" by (cases r3)
              have b3: "alert_block L env ?now (key Disk) (disk_percent u) (subject Disk) ''Disk usage is '' s2 = Inr (s3, a3)"
                using Inr r3 by simp
              have Q3: "?Q s3 (((?ev1 @ a1) @ a2) @ a3)" by (rule step[OF Q2 b3])
              with Pair \<open>ru = Inr u\<close> rep b1 b2 b3 assms(1) show ?thesis
                by (auto simp: check_resources_try_def Let_def)
            qed
          qed
        qed
      qed
    qed
  qed
  then show ?thesis using assms(2) by blast
qed

lemma check_resources_changes:
  assumes "check_resources L env self = (r, s', evs)"
    and "last_alert_time s' k \<noteq> last_alert_time self k"
  shows "\<exists>m. k = key m \<and> attempted m evs"
proof (cases "check_resources_try L env self")
  case (fields x s1 evs1)
  with assms(1) have "s' = s1" and "attempted m evs = attempted m evs1" for m
    by (auto simp: check_resources_def split: option.splits)
  with check_resources_try_changes[OF fields, of k] assms(2) show ?thesis by auto
qed

lemma check_resources_returns: "fst (check_resources L env self) = Inr ()"
  by (simp add: check_resources_def split: prod.splits option.splits)

text \<open>
  Claim C3.  A call of \<^verbatim>\<open>check_resources\<close> returns normally whatever the SMTP server
  answers (\<open>env\<close> is arbitrary, so the notification may fail or succeed).  A last-alert
  timestamp changes only for a metric whose notification was attempted in that tick;
  and for a metric in breach whose cooldown check passes, the notification is attempted
  and the timestamp is set to the time read in that tick.
\<close>

theorem cooldown_recorded_on_attempt:
  assumes run: "check_resources L env self = (r, s', evs)"
  shows "r = Inr () \<and>
         (\<forall>k. last_alert_time s' k \<noteq> last_alert_time self k \<longrightarrow> (\<exists>m. k = key m \<and> attempted m evs)) \<and>
         (get_resource_usage env = (Inr u, ev0) \<and>
          (\<forall>k. threshold_value self k = Some (t k)) \<and>
          (\<forall>k. last_alert_time self (key k) = Some (p k)) \<and>
          cooldown_value self = Some c \<and>
          t m < reading m u \<and> c < total_seconds (now_check env - p m)
          \<longrightarrow> attempted m evs \<and> last_alert_time s' (key m) = Some (now_check env))"
proof (intro conjI allI impI)
  show "r = Inr ()" using check_resources_returns[of L env self] run by simp
next
  fix k assume "last_alert_time s' k \<noteq> last_alert_time self k"
  then show "\<exists>m. k = key m \<and> attempted m evs" by (rule check_resources_changes[OF run])
next
  assume h: "get_resource_usage env = (Inr u, ev0) \<and>
          (\<forall>k. threshold_value self k = Some (t k)) \<and>
          (\<forall>k. last_alert_time self (key k) = Some (p k)) \<and>
          cooldown_value self = Some c \<and>
          t m < reading m u \<and> c < total_seconds (now_check env - p m)"
  then have *: "get_resource_usage env = (Inr u, ev0)" "\<forall>k. threshold_value self k = Some (t k)"
    "\<forall>k. last_alert_time self (key k) = Some (p k)" "cooldown_value self = Some c"
    and due: "t m < reading m u" "c < total_seconds (now_check env - p m)"
    by blast+
  from check_resources_numeric[OF run *] due
  show "attempted m evs" and "last_alert_time s' (key m) = Some (now_check env)" by auto
qed

lemma example_run:
  "\<exists>report. format_usage_report example_lib example_monitor example_usage = Inr report \<and>
   check_resources example_lib example_env example_monitor =
     (Inr (), second_tick_monitor,
      [ConsolePrint report,
       SendAlert ''High CPU Usage Alert'' ''CPU usage is 85.0%'',
       Log ERROR ''Failed to send alert: Connection refused''])"
  by (simp add: check_resources_def check_resources_try_def get_resource_usage_def
      format_usage_report_def metric_line_def example_monitor_def getitem_def py_gt_def
      example_usage_def alert_block_def lookup_def Let_def example_elapsed datetime_min_def
      send_alert_def example_lib_def example_env_def second_tick_monitor_def)

theorem cooldown_recorded_on_attempt_witness:
  "get_resource_usage example_env = (Inr example_usage, []) \<and>
   (\<forall>k. threshold_value example_monitor k = Some 80) \<and>
   (\<forall>k. last_alert_time example_monitor (key k) = Some datetime_min) \<and>
   cooldown_value example_monitor = Some 3600 \<and>
   80 < reading Cpu example_usage \<and>
   3600 < total_seconds (now_check example_env - datetime_min) \<and>
   fst (check_resources example_lib example_env example_monitor) = Inr () \<and>
   Log ERROR ''Failed to send alert: Connection refused''
     \<in> set (snd (snd (check_resources example_lib example_env example_monitor))) \<and>
   attempted Cpu (snd (snd (check_resources example_lib example_env example_monitor))) \<and>
   last_alert_time (fst (snd (check_resources example_lib example_env example_monitor))) (key Cpu)
     = Some (now_check example_env) \<and>
   last_alert_time example_monitor (key Cpu) \<noteq> Some (now_check example_env)"
proof -
  have th: "\<forall>k. threshold_value example_monitor k = Some ((\<lambda>_. 80) k)"
    by (simp add: example_thresholds)
  have la: "\<forall>k. last_alert_time example_monitor (key k) = Some ((\<lambda>_. datetime_min) k)"
    by (simp add: example_tracked)
  have due: "3600 < total_seconds (now_check example_env - datetime_min)"
    by (simp add: example_env_def datetime_min_def example_elapsed)
  have rd: "80 < reading Cpu example_usage"
    by (simp add: example_usage_def)
  have old: "last_alert_time example_monitor (key Cpu) \<noteq> Some (now_check example_env)"
    by (simp add: example_monitor_def example_env_def datetime_min_def)
  have failed: "Log ERROR ''Failed to send alert: Connection refused''
     \<in> set (snd (snd (check_resources example_lib example_env example_monitor)))"
    using example_run by auto
  show ?thesis
    using cooldown_recorded_on_attempt[OF run_collapse,
        of example_lib example_env example_monitor example_usage "[]" "\<lambda>_. 80"
           "\<lambda>_. datetime_min" 3600 Cpu]
      example_usage th la example_cooldown rd due old failed
    by simp
qed

text \<open>
  Claim C6.  When the sampler raises, \<^verbatim>\<open>check_resources\<close> returns normally with the
  monitor unchanged; the whole trace of the tick is the two log records of the two
  handlers: nothing is printed, no notification is attempted.
\<close>

theorem sampler_failure_skips_tick:
  assumes "fst (get_resource_usage env) = Inl e"
  shows "check_resources L env self =
           (Inr (), self,
            [Log ERROR (''Failed to get resource usage: '' @ exc_str e),
             Log ERROR (''Error in check_resources: '' @ exc_str e)])"
proof -
  from assms have "get_resource_usage env =
      (Inl e, [Log ERROR (''Failed to get resource usage: '' @ exc_str e)])"
    by (auto simp: get_resource_usage_def split: sum.splits)
  then show ?thesis
    by (simp add: check_resources_def check_resources_try_def)
qed

theorem sampler_failure_skips_tick_witness:
  "fst (get_resource_usage failing_sampler_env) = Inl (LibraryError ''psutil: access denied'') \<and>
   check_resources example_lib failing_sampler_env example_monitor =
     (Inr (), example_monitor,
      [Log ERROR ''Failed to get resource usage: psutil: access denied'',
       Log ERROR ''Error in check_resources: psutil: access denied''])"
proof -
  have f: "fst (get_resource_usage failing_sampler_env) = Inl (LibraryError ''psutil: access denied'')"
    by (simp add: get_resource_usage_def failing_sampler_env_def example_env_def)
  show ?thesis
    using sampler_failure_skips_tick[OF f, of example_lib example_monitor] f by simp
qed

text \<open>
  Claim C9.  The text of \<^verbatim>\<open>format_usage_report\<close> is a function of the sample and of the
  thresholds alone: two monitors with the same thresholds (whatever their cooldown
  state) give the same text for the same sample, and the function returns no state.
\<close>

theorem report_depends_on_inputs_only:
  assumes "thresholds self1 = thresholds self2"
  shows "format_usage_report L self1 usage = format_usage_report L self2 usage"
  using assms by (simp add: format_usage_report_def metric_line_def)

theorem report_depends_on_inputs_only_witness:
  "thresholds example_monitor = thresholds second_tick_monitor \<and>
   example_monitor \<noteq> second_tick_monitor \<and>
   format_usage_report example_lib example_monitor example_usage
     = format_usage_report example_lib second_tick_monitor example_usage"
proof -
  have t: "thresholds example_monitor = thresholds second_tick_monitor"
    by (simp add: second_tick_monitor_def)
  have "last_alert_time example_monitor ''cpu'' \<noteq> last_alert_time second_tick_monitor ''cpu''"
    by (simp add: second_tick_monitor_def example_monitor_def datetime_min_def)
  then have d: "example_monitor \<noteq> second_tick_monitor" by auto
  show ?thesis
    using report_depends_on_inputs_only[OF t, of example_lib example_usage] t d by simp
qed

section \<open>Start-up and the first breach\<close>

lemma init_sentinel:
  assumes "init open_file safe_load path = (Inr self, evs)"
  shows "last_alert_time self (key m) = Some datetime_min"
  using assms
  by (cases m) (auto simp: init_def and_then_def split: prod.splits sum.splits)

lemma init_default:
  "init missing_file any_parser ''config.yaml'' =
     (Inr example_monitor, [Log ERROR ''Failed to load config: No such file or directory''])"
  by (simp add: init_def load_config_def missing_file_def default_config_def getitem_def
      dict_get_def example_monitor_def)

text \<open>
  Claim C4.  In the monitor that \<^verbatim>\<open>__init__\<close> returns, every metric's last-alert time
  is the sentinel \<^verbatim>\<open>datetime.min\<close>.  For a clock at or after 1970-01-01 and any numeric
  cooldown shorter than the time from the sentinel to that date (about 1969 years, so
  the default of 3600 seconds with a wide margin), the first breach of a metric passes
  the cooldown check: its alert is attempted and its timestamp recorded.
\<close>

theorem first_breach_alerts:
  assumes "init open_file safe_load path = (Inr self, ev_init)"
    and "check_resources L env self = (r, s', evs)"
    and "get_resource_usage env = (Inr u, ev0)"
    and "\<forall>k. threshold_value self k = Some (t k)"
    and "cooldown_value self = Some c"
    and "c < total_seconds (unix_epoch - datetime_min)"
    and "unix_epoch \<le> now_check env"
    and "t m < reading m u"
  shows "last_alert_time self (key m) = Some datetime_min \<and>
         attempted m evs \<and> last_alert_time s' (key m) = Some (now_check env)"
proof -
  have la: "\<forall>k. last_alert_time self (key k) = Some ((\<lambda>_. datetime_min) k)"
    using init_sentinel[OF assms(1)] by simp
  have "total_seconds (unix_epoch - datetime_min) \<le> of_int 62135596800"
    by (rule total_seconds_upper) (simp_all add: unix_epoch_def datetime_min_def)
  moreover have "of_int 62135596800 \<le> total_seconds (now_check env - datetime_min)"
    by (rule total_seconds_lower) (use assms(7) in \<open>simp_all add: unix_epoch_def datetime_min_def\<close>)
  ultimately have "total_seconds (unix_epoch - datetime_min) \<le> total_seconds (now_check env - datetime_min)"
    by simp
  with assms(6) have due: "c < total_seconds (now_check env - datetime_min)" by simp
  from check_resources_numeric[OF assms(2,3,4) la assms(5)] due assms(8) la
  show ?thesis by auto
qed

theorem first_breach_alerts_witness:
  "init missing_file any_parser ''config.yaml'' =
     (Inr example_monitor, [Log ERROR ''Failed to load config: No such file or directory'']) \<and>
   get_resource_usage example_env = (Inr example_usage, []) \<and>
   (\<forall>k. threshold_value example_monitor k = Some 80) \<and>
   cooldown_value example_monitor = Some 3600 \<and>
   3600 < total_seconds (unix_epoch - datetime_min) \<and>
   unix_epoch \<le> now_check example_env \<and>
   80 < reading Cpu example_usage \<and>
   last_alert_time example_monitor (key Cpu) = Some datetime_min \<and>
   attempted Cpu (snd (snd (check_resources example_lib example_env example_monitor))) \<and>
   last_alert_time (fst (snd (check_resources example_lib example_env example_monitor))) (key Cpu)
     = Some (now_check example_env)"
proof -
  have th: "\<forall>k. threshold_value example_monitor k = Some ((\<lambda>_. 80) k)"
    by (simp add: example_thresholds)
  have "real_of_int 3601 \<le> total_seconds (unix_epoch - datetime_min)"
    by (rule total_seconds_lower) (simp_all add: unix_epoch_def datetime_min_def)
  then have rng: "3600 < total_seconds (unix_epoch - datetime_min)" by simp
  have ep: "unix_epoch \<le> now_check example_env"
    by (simp add: unix_epoch_def example_env_def)
  have rd: "80 < reading Cpu example_usage"
    by (simp add: example_usage_def)
  show ?thesis
    using first_breach_alerts[OF init_default run_collapse example_usage th example_cooldown rng ep rd,
        of example_lib]
      init_default example_usage th example_cooldown rng ep rd
    by simp
qed

text \<open>
  Claim C5 as stated, that the recorded cooldown timestamp is the sample's own
  timestamp, fails: \<^verbatim>\<open>check_resources\<close> reads the clock a second time after printing
  the report and records that reading.  Fresh monitor, CPU threshold 80, cooldown 3600,
  sample with CPU 85 stamped 63868651200000000, second reading 250 microseconds later.
\<close>

theorem scenario_A_timestamp_counterexample:
  "init missing_file any_parser ''config.yaml'' =
     (Inr example_monitor, [Log ERROR ''Failed to load config: No such file or directory'']) \<and>
   threshold_value example_monitor Cpu = Some 80 \<and>
   cooldown_value example_monitor = Some 3600 \<and>
   get_resource_usage example_env = (Inr example_usage, []) \<and>
   cpu_percent example_usage = 85 \<and>
   attempted Cpu (snd (snd (check_resources example_lib example_env example_monitor))) \<and>
   last_alert_time (fst (snd (check_resources example_lib example_env example_monitor))) ''cpu''
     \<noteq> Some (timestamp example_usage)"
proof -
  have "last_alert_time second_tick_monitor ''cpu'' \<noteq> Some (timestamp example_usage)"
    by (simp add: second_tick_monitor_def example_usage_def)
  moreover have "attempted Cpu (snd (snd (check_resources example_lib example_env example_monitor)))"
    using example_run by (auto simp: attempted_def)
  moreover have "fst (snd (check_resources example_lib example_env example_monitor)) = second_tick_monitor"
    using example_run by auto
  moreover have "cpu_percent example_usage = 85" by (simp add: example_usage_def)
  ultimately show ?thesis
    using init_default example_thresholds example_cooldown example_usage by simp
qed

text \<open>
  Claim C5, amended.  A fresh monitor with CPU threshold 80 and cooldown 3600 seconds
  that observes a sample with CPU 85 attempts the CPU alert and records as the CPU
  cooldown timestamp the time \<^verbatim>\<open>current_time\<close> that \<^verbatim>\<open>check_resources\<close> reads after the report
  (here for any clock more than 3600 seconds after the sentinel); that is the sample's
  timestamp only when both readings of the clock coincide.
\<close>

theorem scenario_A_records_check_time:
  assumes "init open_file safe_load path = (Inr self, ev_init)"
    and "check_resources L env self = (r, s', evs)"
    and "get_resource_usage env = (Inr u, ev0)"
    and "\<forall>k. threshold_value self k = Some (t k)"
    and "t Cpu = 80"
    and "cpu_percent u = 85"
    and "cooldown_value self = Some 3600"
    and "3600 < total_seconds (now_check env - datetime_min)"
  shows "attempted Cpu evs \<and>
         last_alert_time s' ''cpu'' = Some (now_check env) \<and>
         (last_alert_time s' ''cpu'' = Some (timestamp u) \<longleftrightarrow> now_check env = now_sample env)"
proof -
  have la: "\<forall>k. last_alert_time self (key k) = Some ((\<lambda>_. datetime_min) k)"
    using init_sentinel[OF assms(1)] by simp
  have ts: "timestamp u = now_sample env"
    using assms(3) by (auto simp: get_resource_usage_def and_then_def split: sum.splits)
  from check_resources_numeric[OF assms(2,3,4) la assms(7)]
  obtain report rest where
    t: "\<forall>m. last_alert_time s' (key m) =
              Some (if t m < reading m u \<and> 3600 < total_seconds (now_check env - datetime_min)
                    then now_check env else datetime_min)"
    and a: "\<forall>m. attempted m rest =
              (t m < reading m u \<and> 3600 < total_seconds (now_check env - datetime_min))"
    and e: "evs = ConsolePrint report # rest"
    by blast
  from a[rule_format, of Cpu] e assms(5,6,8) have 1: "attempted Cpu evs" by simp
  from t[rule_format, of Cpu] assms(5,6,8) have 2: "last_alert_time s' ''cpu'' = Some (now_check env)"
    by simp
  show ?thesis using 1 2 ts by auto
qed

theorem scenario_A_records_check_time_witness:
  "init missing_file any_parser ''config.yaml'' =
     (Inr example_monitor, [Log ERROR ''Failed to load config: No such file or directory'']) \<and>
   get_resource_usage example_env = (Inr example_usage, []) \<and>
   (\<forall>k. threshold_value example_monitor k = Some 80) \<and>
   cpu_percent example_usage = 85 \<and>
   cooldown_value example_monitor = Some 3600 \<and>
   3600 < total_seconds (now_check example_env - datetime_min) \<and>
   attempted Cpu (snd (snd (check_resources example_lib example_env example_monitor))) \<and>
   last_alert_time (fst (snd (check_resources example_lib example_env example_monitor))) ''cpu''
     = Some (now_check example_env) \<and>
   now_check example_env \<noteq> now_sample example_env"
proof -
  have th: "\<forall>k. threshold_value example_monitor k = Some ((\<lambda>_. 80) k)"
    by (simp add: example_thresholds)
  have due: "3600 < total_seconds (now_check example_env - datetime_min)"
    by (simp add: example_env_def datetime_min_def example_elapsed)
  have rd: "cpu_percent example_usage = 85"
    by (simp add: example_usage_def)
  have ne: "now_check example_env \<noteq> now_sample example_env"
    by (simp add: example_env_def)
  show ?thesis
    using scenario_A_records_check_time[OF init_default run_collapse example_usage th _ rd
        example_cooldown due, of example_lib]
      init_default example_usage th example_cooldown rd due ne
    by simp
qed

text \<open>
  Claim C7 as stated, that the fallback is logged at warning level, fails: the handler
  of \<^verbatim>\<open>_load_config\<close> calls \<^verbatim>\<open>logging.error\<close>, so the only record is at level ERROR.
\<close>

theorem load_config_warning_counterexample:
  "and_then (missing_file ''config.yaml'') any_parser = Inl (LibraryError ''No such file or directory'') \<and>
   snd (load_config missing_file any_parser ''config.yaml'')
     = [Log ERROR ''Failed to load config: No such file or directory''] \<and>
   \<not> (\<exists>msg. Log WARNING msg \<in> set (snd (load_config missing_file any_parser ''config.yaml'')))"
  by (simp add: load_config_def missing_file_def and_then_def)

text \<open>
  Claim C7, amended.  Whenever opening or parsing the configuration raises,
  \<^verbatim>\<open>_load_config\<close> returns the built-in configuration, with thresholds cpu 80, memory 80,
  disk 80 and the placeholder mail settings, and logs the failure at error level.
\<close>

theorem load_config_fallback:
  assumes "and_then (open_file config_path) safe_load = Inl e"
  shows "load_config open_file safe_load config_path =
           (default_config, [Log ERROR (''Failed to load config: '' @ exc_str e)]) \<and>
         getitem default_config ''thresholds'' =
           Inr (YMap [(''cpu'', YInt 80), (''memory'', YInt 80), (''disk'', YInt 80)]) \<and>
         getitem default_config ''email'' =
           Inr (YMap [(''smtp_server'', YStr ''smtp.gmail.com''),
                      (''smtp_port'', YInt 587),
                      (''sender'', YStr ''your-email@gmail.com''),
                      (''password'', YStr ''your-app-password''),
                      (''recipient'', YStr ''admin@example.com'')])"
  using assms by (simp add: load_config_def default_config_def getitem_def)

theorem load_config_fallback_witness:
  "and_then (missing_file ''config.yaml'') any_parser = Inl (LibraryError ''No such file or directory'') \<and>
   load_config missing_file any_parser ''config.yaml'' =
     (default_config, [Log ERROR ''Failed to load config: No such file or directory''])"
proof -
  have f: "and_then (missing_file ''config.yaml'') any_parser = Inl (LibraryError ''No such file or directory'')"
    by (simp add: missing_file_def)
  show ?thesis
    using load_config_fallback[where open_file = missing_file and config_path = "''config.yaml''"
        and safe_load = any_parser, OF f] f
    by simp
qed

text \<open>
  Claim C10.  When the file opens and parses but the document is not a dict holding
  both \<^verbatim>\<open>thresholds\<close> and \<^verbatim>\<open>email\<close> (an empty file parses to \<^verbatim>\<open>None\<close>), \<^verbatim>\<open>_load_config\<close>
  returns the document as it is and logs nothing, and \<^verbatim>\<open>__init__\<close> raises: the
  default configuration is not applied.
\<close>

theorem init_raises_without_sections:
  assumes "and_then (open_file config_path) safe_load = Inr doc"
    and "\<not> has_key doc ''thresholds'' \<or> \<not> has_key doc ''email''"
  shows "load_config open_file safe_load config_path = (doc, []) \<and>
         (\<exists>e. init open_file safe_load config_path = (Inl e, []))"
proof -
  have lc: "load_config open_file safe_load config_path = (doc, [])"
    using assms(1) by (simp add: load_config_def)
  have miss: "map_of items k = None" if "\<not> has_key (YMap items) k" for items k
    using that by (simp add: has_key_def map_of_eq_None_iff)
  have "\<exists>e. and_then (getitem doc ''thresholds'') (\<lambda>th. and_then (getitem doc ''email'') (f th)) = Inl e"
    for f :: "yaml \<Rightarrow> yaml \<Rightarrow> py_exception + SystemMonitor"
  proof (cases doc)
    case (YMap items)
    show ?thesis
    proof (cases "has_key doc ''thresholds''")
      case False
      then show ?thesis using YMap miss[of items "''thresholds''"] by (simp add: getitem_def)
    next
      case True
      with assms(2) have "\<not> has_key doc ''email''" by simp
      then show ?thesis using YMap miss[of items "''email''"]
        by (simp add: getitem_def and_then_def split: option.splits)
    qed
  qed (simp_all add: getitem_def)
  then show ?thesis using lc by (simp add: init_def)
qed

theorem init_raises_without_sections_witness:
  "and_then (empty_file ''config.yaml'') any_parser = Inr YNull \<and>
   \<not> has_key YNull ''thresholds'' \<and>
   (\<exists>e. init empty_file any_parser ''config.yaml'' = (Inl e, []))"
proof -
  have f: "and_then (empty_file ''config.yaml'') any_parser = Inr YNull"
    by (simp add: empty_file_def any_parser_def)
  have k: "\<not> has_key YNull ''thresholds''"
    by (simp add: has_key_def)
  then have h: "\<not> has_key YNull ''thresholds'' \<or> \<not> has_key YNull ''email''"
    by simp
  show ?thesis
    using init_raises_without_sections[where open_file = empty_file
        and config_path = "''config.yaml''" and safe_load = any_parser, OF f h] f k
    by simp
qed

section \<open>The report against the alerting\<close>

lemma split_lines_single: "nl \<notin> set a \<Longrightarrow> split_lines a = [a]"
  by (induction a) auto

lemma split_lines_line: "nl \<notin> set a \<Longrightarrow> split_lines (a @ nl # rest) = a # split_lines rest"
  by (induction a) auto

lemma alert_not_ok: "\<not> suffix ''[red]ALERT[/red]'' (xs @ ''[green]OK[/green]'')"
proof
  assume "suffix ''[red]ALERT[/red]'' (xs @ ''[green]OK[/green]'')"
  then obtain zs where "xs @ ''[green]OK[/green]'' = zs @ ''[red]ALERT[/red]''"
    by (auto simp: suffix_def)
  then have "rev (xs @ ''[green]OK[/green]'') = rev (zs @ ''[red]ALERT[/red]'')" by simp
  then show False by simp
qed

lemma ok_not_alert: "\<not> suffix ''[green]OK[/green]'' (xs @ ''[red]ALERT[/red]'')"
proof
  assume "suffix ''[green]OK[/green]'' (xs @ ''[red]ALERT[/red]'')"
  then obtain zs where "xs @ ''[red]ALERT[/red]'' = zs @ ''[green]OK[/green]''"
    by (auto simp: suffix_def)
  then have "rev (xs @ ''[red]ALERT[/red]'') = rev (zs @ ''[green]OK[/green]'')" by simp
  then show False by simp
qed

lemma status_suffix:
  "shows_alert (xs @ (if b then ''[red]ALERT[/red]'' else ''[green]OK[/green]'')) = b"
  "shows_ok (xs @ (if b then ''[red]ALERT[/red]'' else ''[green]OK[/green]'')) = (\<not> b)"
  using alert_not_ok[of xs] ok_not_alert[of xs]
  by (auto simp: shows_alert_def shows_ok_def suffix_def)

lemma nl_notin_rjust: "nl \<notin> set s \<Longrightarrow> nl \<notin> set (rjust w s)"
  by (auto simp: rjust_def nl_def)

lemma metric_line_status:
  assumes "threshold_value self m = Some t"
  shows "\<exists>shown. metric_line L self (label m) v (key m) = Inr (status_line L m v shown (t < v))"
  using metric_line_numeric[OF assms refl, of L "label m" v]
  by (auto simp: status_line_def)

lemma nl_notin_status_line: "newline_free L \<Longrightarrow> nl \<notin> set (status_line L m v shown over)"
  unfolding status_line_def
  by (cases m) (auto simp: newline_free_def dest: nl_notin_rjust simp: nl_def rjust_def)

lemma format_usage_report_lines:
  assumes th: "\<forall>k. threshold_value self k = Some (t k)"
    and nf: "newline_free L"
    and rep: "format_usage_report L self u = Inr report"
  shows "\<exists>shown. split_lines report =
           [[], ''System Resource Usage Report - '' @ strftime L (timestamp u),
            replicate 60 CHR ''='',
            status_line L Cpu (cpu_percent u) (shown Cpu) (t Cpu < cpu_percent u),
            status_line L Memory (memory_percent u) (shown Memory) (t Memory < memory_percent u),
            status_line L Disk (disk_percent u) (shown Disk) (t Disk < disk_percent u),
            replicate 60 CHR ''='']"
proof -
  obtain a where a: "metric_line L self ''CPU Usage    : '' (cpu_percent u) ''cpu''
      = Inr (status_line L Cpu (cpu_percent u) a (t Cpu < cpu_percent u))"
    using metric_line_status[OF th[rule_format, of Cpu], of L "cpu_percent u"] by auto
  obtain b where b: "metric_line L self ''Memory Usage : '' (memory_percent u) ''memory''
      = Inr (status_line L Memory (memory_percent u) b (t Memory < memory_percent u))"
    using metric_line_status[OF th[rule_format, of Memory], of L "memory_percent u"] by auto
  obtain c where c: "metric_line L self ''Disk Usage   : '' (disk_percent u) ''disk''
      = Inr (status_line L Disk (disk_percent u) c (t Disk < disk_percent u))"
    using metric_line_status[OF th[rule_format, of Disk], of L "disk_percent u"] by auto
  let ?hd = "''System Resource Usage Report - '' @ strftime L (timestamp u)"
  let ?rule = "replicate 60 CHR ''=''"
  let ?l1 = "status_line L Cpu (cpu_percent u) a (t Cpu < cpu_percent u)"
  let ?l2 = "status_line L Memory (memory_percent u) b (t Memory < memory_percent u)"
  let ?l3 = "status_line L Disk (disk_percent u) c (t Disk < disk_percent u)"
  have report: "report = [] @ nl # ?hd @ nl # ?rule @ nl # ?l1 @ nl # ?l2 @ nl # ?l3 @ nl # ?rule"
    using rep by (simp add: format_usage_report_def a b c)
  have n0: "nl \<notin> set ([]::string)" by simp
  have n1: "nl \<notin> set ?hd" using nf by (auto simp: newline_free_def nl_def)
  have n2: "nl \<notin> set ?rule" by (simp add: nl_def)
  note n3 = nl_notin_status_line[OF nf]
  have "split_lines report = [[], ?hd, ?rule, ?l1, ?l2, ?l3, ?rule]"
    unfolding report
    by (simp only: split_lines_line[OF n0] split_lines_line[OF n1] split_lines_line[OF n2]
        split_lines_line[OF n3] split_lines_single[OF n2])
  then show ?thesis
    by (intro exI[of _ "\<lambda>m. case m of Cpu \<Rightarrow> a | Memory \<Rightarrow> b | Disk \<Rightarrow> c"]) simp
qed

lemma report_line_status:
  assumes th: "\<forall>k. threshold_value self k = Some (t k)"
    and nf: "newline_free L"
    and rep: "format_usage_report L self u = Inr report"
  shows "prefix (label m) (report_line m report) \<and>
         shows_alert (report_line m report) = (t m < reading m u) \<and>
         shows_ok (report_line m report) = (\<not> t m < reading m u)"
proof -
  from format_usage_report_lines[OF th nf rep] obtain shown where
    "split_lines report =
           [[], ''System Resource Usage Report - '' @ strftime L (timestamp u),
            replicate 60 CHR ''='',
            status_line L Cpu (cpu_percent u) (shown Cpu) (t Cpu < cpu_percent u),
            status_line L Memory (memory_percent u) (shown Memory) (t Memory < memory_percent u),
            status_line L Disk (disk_percent u) (shown Disk) (t Disk < disk_percent u),
            replicate 60 CHR ''='']"
    by blast
  then have line: "report_line m report = status_line L m (reading m u) (shown m) (t m < reading m u)"
    by (cases m) (simp_all add: report_line_def)
  have "prefix (label m) (status_line L m v y b)" for v y b
    by (simp add: status_line_def)
  moreover have "shows_alert (status_line L m v y b) = b" "shows_ok (status_line L m v y b) = (\<not> b)"
    for v y b
    unfolding status_line_def by (rule status_suffix)+
  ultimately show ?thesis unfolding line by simp
qed

text \<open>
  Claim C8.  In a tick on a numeric configuration, the text that \<^verbatim>\<open>check_resources\<close>
  prints is the one of \<^verbatim>\<open>format_usage_report\<close>; the line of each metric starts with the
  metric's label and ends in ALERT exactly when the sampled value is strictly above the
  threshold (in OK otherwise), and the alerting agrees with it: the alert of a metric
  is attempted exactly when its line shows ALERT and its cooldown has elapsed.
\<close>

theorem report_status_agrees_with_alerting:
  assumes "check_resources L env self = (r, s', evs)"
    and "get_resource_usage env = (Inr u, ev0)"
    and "\<forall>k. threshold_value self k = Some (t k)"
    and "\<forall>k. last_alert_time self (key k) = Some (p k)"
    and "cooldown_value self = Some c"
    and "newline_free L"
  shows "\<exists>report rest.
           evs = ConsolePrint report # rest \<and> format_usage_report L self u = Inr report \<and>
           (\<forall>m. prefix (label m) (report_line m report) \<and>
                (shows_alert (report_line m report) \<longleftrightarrow> t m < reading m u) \<and>
                (shows_ok (report_line m report) \<longleftrightarrow> \<not> t m < reading m u) \<and>
                (attempted m evs \<longleftrightarrow>
                   shows_alert (report_line m report) \<and> c < total_seconds (now_check env - p m)))"
proof -
  from check_resources_numeric[OF assms(1-5)] obtain report rest where
    rep: "format_usage_report L self u = Inr report"
    and evs: "evs = ConsolePrint report # rest"
    and att: "\<forall>m. attempted m rest = (t m < reading m u \<and> c < total_seconds (now_check env - p m))"
    by blast
  have "prefix (label m) (report_line m report) \<and>
        (shows_alert (report_line m report) \<longleftrightarrow> t m < reading m u) \<and>
        (shows_ok (report_line m report) \<longleftrightarrow> \<not> t m < reading m u) \<and>
        (attempted m evs \<longleftrightarrow>
           shows_alert (report_line m report) \<and> c < total_seconds (now_check env - p m))" for m
    using report_line_status[OF assms(3,6) rep, of m] att[rule_format, of m] evs by simp
  with rep evs show ?thesis by blast
qed

lemma example_lib_newline_free: "newline_free example_lib"
  by (simp add: newline_free_def example_lib_def nl_def)

theorem report_status_agrees_with_alerting_witness:
  "get_resource_usage example_env = (Inr example_usage, []) \<and>
   (\<forall>k. threshold_value example_monitor k = Some 80) \<and>
   (\<forall>k. last_alert_time example_monitor (key k) = Some datetime_min) \<and>
   cooldown_value example_monitor = Some 3600 \<and>
   newline_free example_lib \<and>
   (\<exists>report rest.
      snd (snd (check_resources example_lib example_env example_monitor)) = ConsolePrint report # rest \<and>
      shows_alert (report_line Cpu report) \<and>
      attempted Cpu (snd (snd (check_resources example_lib example_env example_monitor))) \<and>
      shows_ok (report_line Memory report) \<and>
      \<not> attempted Memory (snd (snd (check_resources example_lib example_env example_monitor))))"
proof -
  have th: "\<forall>k. threshold_value example_monitor k = Some ((\<lambda>_. 80) k)"
    by (simp add: example_thresholds)
  have la: "\<forall>k. last_alert_time example_monitor (key k) = Some ((\<lambda>_. datetime_min) k)"
    by (simp add: example_tracked)
  have due: "3600 < total_seconds (now_check example_env - datetime_min)"
    by (simp add: example_env_def datetime_min_def example_elapsed)
  have rd: "reading Cpu example_usage = 85" "reading Memory example_usage = 80"
    by (simp_all add: example_usage_def)
  from report_status_agrees_with_alerting[OF run_collapse example_usage th la example_cooldown
      example_lib_newline_free]
  obtain report rest where
    e: "snd (snd (check_resources example_lib example_env example_monitor)) = ConsolePrint report # rest"
    and a: "\<forall>m. prefix (label m) (report_line m report) \<and>
                (shows_alert (report_line m report) \<longleftrightarrow> 80 < reading m example_usage) \<and>
                (shows_ok (report_line m report) \<longleftrightarrow> \<not> 80 < reading m example_usage) \<and>
                (attempted m (snd (snd (check_resources example_lib example_env example_monitor))) \<longleftrightarrow>
                   shows_alert (report_line m report) \<and>
                   3600 < total_seconds (now_check example_env - datetime_min))"
    by blast
  from a[rule_format, of Cpu] a[rule_format, of Memory] rd due
  have "shows_alert (report_line Cpu report)"
    "attempted Cpu (snd (snd (check_resources example_lib example_env example_monitor)))"
    "shows_ok (report_line Memory report)"
    "\<not> attempted Memory (snd (snd (check_resources example_lib example_env example_monitor)))"
    by simp_all
  with e example_usage th la example_cooldown example_lib_newline_free show ?thesis
    by auto
qed

end
